theory Spec2Isabelle
  imports Main "HOL-Library.AList"
begin

text \<open>
  A model of the LinkedIn MCP demonstration server: the class \<open>MCPServer\<close>
  (mcpServer.js) with its tool registry, its four tool executors and its three handlers,
  and the service worker (sw.js) with the dispatcher \<open>handleMCPRequest\<close> and the
  instance it routes to. Exceptions are values (\<open>Inl\<close>); the clock is a parameter.
\<close>

section \<open>JavaScript values\<close>

text \<open>
  The server receives decoded JSON and builds its answers as plain objects, so both are
  values of one type. An object is the list of its own properties in enumeration order
  (a decoded JSON object has pairwise distinct keys), and \<open>JUndefined\<close> is the value of
  a property that is not there. A string is the list of its code units, for code units
  below 256; a number is an integer (every JSON number used by the server's tests and
  schemas is one; fractions are outside the model).
\<close>

datatype jsval =
    JUndefined
  | JNull
  | JBool bool
  | JNum int
  | JStr string
  | JArr "jsval list"
  | JObj "(string \<times> jsval) list"

text \<open>
  Exceptions, each with its message: a TypeError of the engine (in the wording of V8),
  and any other error (\<open>new Error(msg)\<close> of the source, the error of a body that is
  not JSON).
\<close>

datatype js_exn = Error string | TypeError string

fun message :: "js_exn \<Rightarrow> string" where
  "message (Error m) = m"
| "message (TypeError m) = m"

text \<open>
  What the code reads from its environment: the two clock readings \<open>Date.now()\<close> and
  \<open>new Date().toISOString()\<close>, and the engine's conversion of a string to a number,
  rounded down to an integer (it is only ever compared with the integer loop counter of
  \<open>searchOrganizations\<close>), with \<open>None\<close> for NaN.
\<close>

record runtime =
  Date_now :: int
  Date_toISOString :: string
  StringToNumber :: "string \<Rightarrow> int option"

definition bind :: "js_exn + 'a \<Rightarrow> ('a \<Rightarrow> js_exn + 'b) \<Rightarrow> js_exn + 'b" where
  "bind m f = (case m of Inl e \<Rightarrow> Inl e | Inr x \<Rightarrow> f x)"

text \<open>
  \<open>v.k\<close> for one of the fixed property names the server reads (method, params, id, name,
  arguments, text, visibility, query, limit, role): none of them is a built-in property
  of a string, an array, a number or a boolean, so only an object's own properties
  answer, and reading from null or undefined is a TypeError.
\<close>

fun get :: "jsval \<Rightarrow> string \<Rightarrow> js_exn + jsval" where
  "get JUndefined k =
     Inl (TypeError (''Cannot read properties of undefined (reading '' @ [CHR 0x27] @ k @ [CHR 0x27] @ '')''))"
| "get JNull k =
     Inl (TypeError (''Cannot read properties of null (reading '' @ [CHR 0x27] @ k @ [CHR 0x27] @ '')''))"
| "get (JObj ps) k = Inr (case map_of ps k of None \<Rightarrow> JUndefined | Some v \<Rightarrow> v)"
| "get v k = Inr JUndefined"

text \<open>\<open>o.k = v\<close> on an object: an existing property keeps its place, a new one goes last.\<close>

fun set_prop :: "jsval \<Rightarrow> string \<Rightarrow> jsval \<Rightarrow> jsval" where
  "set_prop (JObj ps) k v = JObj (AList.update k v ps)"
| "set_prop w k v = w"

text \<open>The keys of an object, as \<open>Object.keys\<close> lists them.\<close>

fun keys :: "jsval \<Rightarrow> string list" where
  "keys (JObj ps) = map fst ps"
| "keys v = []"

fun truthy :: "jsval \<Rightarrow> bool" where
  "truthy JUndefined = False"
| "truthy JNull = False"
| "truthy (JBool b) = b"
| "truthy (JNum n) = (n \<noteq> 0)"
| "truthy (JStr s) = (s \<noteq> [])"
| "truthy (JArr xs) = True"
| "truthy (JObj ps) = True"

text \<open>\<open>a || b\<close>\<close>

definition or_else :: "jsval \<Rightarrow> jsval \<Rightarrow> jsval" where
  "or_else a b = (if truthy a then a else b)"

subsection \<open>Conversion to a string\<close>

function show_nat :: "nat \<Rightarrow> string" where
  "show_nat n =
     (if n < 10 then [''0123456789'' ! n]
      else show_nat (n div 10) @ [''0123456789'' ! (n mod 10)])"
  by pat_completeness auto
termination
  by (relation "measure id") auto

declare show_nat.simps [simp del]

definition show_int :: "int \<Rightarrow> string" where
  "show_int i = (if i < 0 then CHR ''-'' # show_nat (nat (- i)) else show_nat (nat i))"

text \<open>
  The string a value becomes in \<open>'...' + v\<close> and as a property key. An array joins its
  elements with commas (null and undefined as the empty string). An object from JSON is
  \<open>[object Object]\<close>, unless it has an own property \<open>toString\<close>: that property is not
  callable, the inherited \<open>valueOf\<close> returns the object itself, and the conversion
  raises a TypeError.
\<close>

fun ToString :: "jsval \<Rightarrow> js_exn + string"
and join_elems :: "jsval list \<Rightarrow> js_exn + string" where
  "ToString JUndefined = Inr ''undefined''"
| "ToString JNull = Inr ''null''"
| "ToString (JBool b) = Inr (if b then ''true'' else ''false'')"
| "ToString (JNum n) = Inr (show_int n)"
| "ToString (JStr s) = Inr s"
| "ToString (JArr xs) = join_elems xs"
| "ToString (JObj ps) =
     (if ''toString'' \<in> set (map fst ps)
      then Inl (TypeError ''Cannot convert object to primitive value'')
      else Inr ''[object Object]'')"
| "join_elems [] = Inr ''''"
| "join_elems (x # xs) =
     (case (if x = JUndefined \<or> x = JNull then Inr '''' else ToString x) of
        Inl e \<Rightarrow> Inl e
      | Inr s \<Rightarrow>
          (if xs = [] then Inr s
           else (case join_elems xs of Inl e \<Rightarrow> Inl e | Inr r \<Rightarrow> Inr (s @ '','' @ r))))"

text \<open>The number a value becomes in \<open>Math.min(v, 5)\<close>; \<open>None\<close> is NaN.\<close>

fun ToNumber :: "runtime \<Rightarrow> jsval \<Rightarrow> js_exn + int option" where
  "ToNumber rt JUndefined = Inr None"
| "ToNumber rt JNull = Inr (Some 0)"
| "ToNumber rt (JBool b) = Inr (Some (if b then 1 else 0))"
| "ToNumber rt (JNum n) = Inr (Some n)"
| "ToNumber rt (JStr s) = Inr (StringToNumber rt s)"
| "ToNumber rt v = bind (ToString v) (\<lambda>s. Inr (StringToNumber rt s))"

subsection \<open>\<open>JSON.stringify(value, null, 2)\<close>\<close>

definition nl :: string where
  "nl = [CHR 0x0A]"

definition gap :: string where
  "gap = ''  ''"

fun join_with :: "string \<Rightarrow> string list \<Rightarrow> string" where
  "join_with sep [] = []"
| "join_with sep [s] = s"
| "join_with sep (s # t # ts) = s @ sep @ join_with sep (t # ts)"

definition quote_char :: "char \<Rightarrow> string" where
  "quote_char c =
     (let n = (of_char c :: nat)
      in if n = 8 then [CHR 0x5C, CHR ''b'']
         else if n = 9 then [CHR 0x5C, CHR ''t'']
         else if n = 10 then [CHR 0x5C, CHR ''n'']
         else if n = 12 then [CHR 0x5C, CHR ''f'']
         else if n = 13 then [CHR 0x5C, CHR ''r'']
         else if n = 34 then [CHR 0x5C, CHR 0x22]
         else if n = 92 then [CHR 0x5C, CHR 0x5C]
         else if n < 32
           then [CHR 0x5C, CHR ''u'', CHR ''0'', CHR ''0'',
                 ''0123456789abcdef'' ! (n div 16), ''0123456789abcdef'' ! (n mod 16)]
         else [c])"

definition quote :: "string \<Rightarrow> string" where
  "quote s = [CHR 0x22] @ concat (map quote_char s) @ [CHR 0x22]"

text \<open>
  The first argument is the indentation reached. \<open>None\<close> is the result undefined: such a
  property is left out of an object and printed as null in an array.
\<close>

fun stringify :: "string \<Rightarrow> jsval \<Rightarrow> string option"
and stringify_elems :: "string \<Rightarrow> jsval list \<Rightarrow> string list"
and stringify_props :: "string \<Rightarrow> (string \<times> jsval) list \<Rightarrow> string list" where
  "stringify ind JUndefined = None"
| "stringify ind JNull = Some ''null''"
| "stringify ind (JBool b) = Some (if b then ''true'' else ''false'')"
| "stringify ind (JNum n) = Some (show_int n)"
| "stringify ind (JStr s) = Some (quote s)"
| "stringify ind (JArr xs) =
     Some (if xs = [] then ''[]''
           else ''['' @ nl @ ind @ gap
                @ join_with ('','' @ nl @ ind @ gap) (stringify_elems (ind @ gap) xs)
                @ nl @ ind @ '']'')"
| "stringify ind (JObj ps) =
     Some (let partial = stringify_props (ind @ gap) ps
           in if partial = [] then ''{}''
              else ''{'' @ nl @ ind @ gap
                   @ join_with ('','' @ nl @ ind @ gap) partial
                   @ nl @ ind @ ''}'')"
| "stringify_elems ind [] = []"
| "stringify_elems ind (x # xs) =
     (case stringify ind x of None \<Rightarrow> ''null'' | Some s \<Rightarrow> s) # stringify_elems ind xs"
| "stringify_props ind [] = []"
| "stringify_props ind ((k, v) # ps) =
     (case stringify ind v of
        None \<Rightarrow> stringify_props ind ps
      | Some s \<Rightarrow> (quote k @ '': '' @ s) # stringify_props ind ps)"

definition JSON_stringify :: "jsval \<Rightarrow> jsval" where
  "JSON_stringify v = (case stringify [] v of None \<Rightarrow> JUndefined | Some s \<Rightarrow> JStr s)"

section \<open>Class \<open>MCPServer\<close> (mcpServer.js)\<close>

subsection \<open>The tool registry\<close>

definition initializeTools :: "(string \<times> jsval) list" where
  "initializeTools =
    [(''get_profile'', JObj
        [(''name'', JStr ''get_profile''),
         (''description'', JStr ''Get LinkedIn profile information for the current user''),
         (''inputSchema'', JObj
            [(''type'', JStr ''object''), (''properties'', JObj []), (''required'', JArr [])])]),
     (''create_post'', JObj
        [(''name'', JStr ''create_post''),
         (''description'', JStr ''Create a new LinkedIn post''),
         (''inputSchema'', JObj
            [(''type'', JStr ''object''),
             (''properties'', JObj
                [(''text'', JObj
                    [(''type'', JStr ''string''),
                     (''description'', JStr ''The text content of the post'')]),
                 (''visibility'', JObj
                    [(''type'', JStr ''string''),
                     (''description'', JStr ''Post visibility (PUBLIC or CONNECTIONS)''),
                     (''enum'', JArr [JStr ''PUBLIC'', JStr ''CONNECTIONS'']),
                     (''default'', JStr ''PUBLIC'')])]),
             (''required'', JArr [JStr ''text''])])]),
     (''search_organizations'', JObj
        [(''name'', JStr ''search_organizations''),
         (''description'', JStr ''Search for LinkedIn organizations''),
         (''inputSchema'', JObj
            [(''type'', JStr ''object''),
             (''properties'', JObj
                [(''query'', JObj
                    [(''type'', JStr ''string''),
                     (''description'', JStr ''Search query for organizations'')]),
                 (''limit'', JObj
                    [(''type'', JStr ''number''),
                     (''description'', JStr ''Maximum number of results to return''),
                     (''default'', JNum 10),
                     (''minimum'', JNum 1),
                     (''maximum'', JNum 50)])]),
             (''required'', JArr [JStr ''query''])])]),
     (''get_organizations'', JObj
        [(''name'', JStr ''get_organizations''),
         (''description'', JStr ''Get organizations the user has access to''),
         (''inputSchema'', JObj
            [(''type'', JStr ''object''),
             (''properties'', JObj
                [(''role'', JObj
                    [(''type'', JStr ''string''),
                     (''description'', JStr ''Filter by role (ADMINISTRATOR, MEMBER, etc.)''),
                     (''enum'', JArr [JStr ''ADMINISTRATOR'', JStr ''MEMBER'', JStr ''CONTRIBUTOR''])])]),
             (''required'', JArr [])])])]"

text \<open>
  \<open>this.tools\<close> is an object literal, so \<open>this.tools[key]\<close> also finds what every
  object inherits from \<open>Object.prototype\<close>. These are its property names; each holds a
  function (or, for \<open>__proto__\<close>, the prototype object), which is truthy.
\<close>

definition Object_prototype_properties :: "string list" where
  "Object_prototype_properties =
    [''constructor'', ''hasOwnProperty'', ''isPrototypeOf'', ''propertyIsEnumerable'',
     ''toLocaleString'', ''toString'', ''valueOf'', ''__proto__'',
     ''__defineGetter__'', ''__defineSetter__'', ''__lookupGetter__'', ''__lookupSetter__'']"

text \<open>Whether \<open>this.tools[key]\<close> is truthy.\<close>

definition tools_truthy :: "string \<Rightarrow> bool" where
  "tools_truthy key =
     (case map_of initializeTools key of
        Some descriptor \<Rightarrow> truthy descriptor
      | None \<Rightarrow> key \<in> set Object_prototype_properties)"

subsection \<open>The tool executors\<close>

definition getProfile :: jsval where
  "getProfile =
     JObj [(''status'', JStr ''demo''),
           (''message'', JStr ''This is a demo response. Connect your LinkedIn app for real data.''),
           (''data'', JObj
              [(''id'', JStr ''sample-user-id''),
               (''firstName'', JObj [(''localized'', JObj [(''en_US'', JStr ''Demo'')])]),
               (''lastName'', JObj [(''localized'', JObj [(''en_US'', JStr ''User'')])]),
               (''headline'', JObj [(''localized'', JObj [(''en_US'', JStr ''Professional using MCP Server'')])]),
               (''industry'', JObj [(''localized'', JObj [(''en_US'', JStr ''Technology'')])]),
               (''location'', JObj [(''localized'', JObj [(''en_US'', JStr ''San Francisco, CA'')])]),
               (''profilePicture'', JNull),
               (''publicProfileUrl'', JStr ''https://linkedin.com/in/demo-user'')])]"

text \<open>\<open>createPost(text, visibility = "PUBLIC")\<close>: the default stands in for undefined only.\<close>

definition createPost :: "runtime \<Rightarrow> jsval \<Rightarrow> jsval \<Rightarrow> js_exn + jsval" where
  "createPost rt text visibility0 =
     (let visibility = (if visibility0 = JUndefined then JStr ''PUBLIC'' else visibility0)
      in bind (ToString visibility) (\<lambda>v.
           Inr (JObj [(''status'', JStr ''success''),
                      (''message'', JStr (''Post would be created with visibility: '' @ v)),
                      (''data'', JObj
                         [(''text'', text),
                          (''id'', JStr (''demo-post-'' @ show_int (Date_now rt))),
                          (''status'', JStr ''PUBLISHED''),
                          (''visibility'', visibility),
                          (''createdAt'', JStr (Date_toISOString rt)),
                          (''author'', JStr ''demo-user-id'')])])))"

text \<open>\<open>String.prototype.toLowerCase\<close> and the character class \<open>\s\<close>, on code units below 256.\<close>

fun toLowerCase_char :: "char \<Rightarrow> char" where
  "toLowerCase_char (Char b0 b1 b2 b3 b4 b5 b6 b7) =
     (let n = (of_char (Char b0 b1 b2 b3 b4 b5 b6 b7) :: nat)
      in if (65 \<le> n \<and> n \<le> 90) \<or> (192 \<le> n \<and> n \<le> 222 \<and> n \<noteq> 215)
         then Char b0 b1 b2 b3 b4 True b6 b7
         else Char b0 b1 b2 b3 b4 b5 b6 b7)"

definition toLowerCase :: "string \<Rightarrow> string" where
  "toLowerCase s = map toLowerCase_char s"

definition is_space :: "char \<Rightarrow> bool" where
  "is_space c = ((of_char c :: nat) \<in> {9, 10, 11, 12, 13, 32, 160})"

text \<open>\<open>s.replace(/\s+/g, '-')\<close>: every maximal run of white space becomes one hyphen.\<close>

function replace_spaces :: "string \<Rightarrow> string" where
  "replace_spaces [] = []"
| "replace_spaces (c # cs) =
     (if is_space c then CHR ''-'' # replace_spaces (dropWhile is_space cs)
      else c # replace_spaces cs)"
  by pat_completeness auto
termination
  by (relation "measure length") (auto simp: length_dropWhile_le less_Suc_eq_le)

definition industries :: "string list" where
  "industries = [''Technology'', ''Finance'', ''Healthcare'', ''Education'', ''Manufacturing'']"

definition locations :: "string list" where
  "locations = [''San Francisco, CA'', ''New York, NY'', ''Seattle, WA'', ''Austin, TX'', ''Boston, MA'']"

text \<open>
  The object pushed in round \<open>i\<close> of the loop. \<open>query.toLowerCase()\<close> is a TypeError
  unless \<open>query\<close> is a string.
\<close>

fun mockResult :: "jsval \<Rightarrow> int \<Rightarrow> js_exn + jsval" where
  "mockResult (JStr q) i =
     Inr (JObj [(''id'', JStr (''org-'' @ replace_spaces (toLowerCase q) @ ''-'' @ show_int i)),
                (''localizedName'', JStr (q @ '' Organization '' @ show_int i)),
                (''industry'', JStr (industries ! nat (i mod 5))),
                (''employeeCountRange'', JObj
                   [(''start'', JNum (10 ^ nat i)), (''end'', JNum (10 ^ nat (i + 1)))]),
                (''location'', JStr (locations ! nat (i mod 5)))])"
| "mockResult JUndefined i =
     Inl (TypeError (''Cannot read properties of undefined (reading '' @ [CHR 0x27] @ ''toLowerCase'' @ [CHR 0x27] @ '')''))"
| "mockResult JNull i =
     Inl (TypeError (''Cannot read properties of null (reading '' @ [CHR 0x27] @ ''toLowerCase'' @ [CHR 0x27] @ '')''))"
| "mockResult v i = Inl (TypeError ''query.toLowerCase is not a function'')"

text \<open>
  \<open>for (let i = 1; i <= Math.min(limit, 5); i++) mockResults.push(...)\<close>, from round
  \<open>i\<close> on; \<open>m\<close> is \<open>Math.min(limit, 5)\<close>.
\<close>

function search_loop :: "jsval \<Rightarrow> int \<Rightarrow> int \<Rightarrow> jsval list \<Rightarrow> js_exn + jsval list" where
  "search_loop query m i mockResults =
     (if i \<le> m
      then bind (mockResult query i) (\<lambda>r. search_loop query m (i + 1) (mockResults @ [r]))
      else Inr mockResults)"
  by pat_completeness auto
termination
  by (relation "measure (\<lambda>(query, m, i, mockResults). nat (m + 1 - i))") auto

declare search_loop.simps [simp del]

text \<open>
  \<open>searchOrganizations(query, limit = 10)\<close>. The loop test converts \<open>limit\<close> to a number
  first; against NaN it fails at once.
\<close>

definition searchOrganizations :: "runtime \<Rightarrow> jsval \<Rightarrow> jsval \<Rightarrow> js_exn + jsval" where
  "searchOrganizations rt query limit0 =
     (let limit = (if limit0 = JUndefined then JNum 10 else limit0)
      in bind (ToNumber rt limit) (\<lambda>n.
         bind (case n of None \<Rightarrow> Inr [] | Some l \<Rightarrow> search_loop query (min l 5) 1 []) (\<lambda>mockResults.
           Inr (JObj [(''status'', JStr ''demo''),
                      (''message'', JStr ''Demo search results. Connect LinkedIn API for real data.''),
                      (''data'', JObj
                         [(''elements'', JArr mockResults),
                          (''paging'', JObj
                             [(''total'', JNum (int (length mockResults))),
                              (''count'', JNum (int (length mockResults))),
                              (''start'', JNum 0)])])]))))"

definition mockOrganizations :: "jsval list" where
  "mockOrganizations =
     [JObj [(''organization'', JStr ''urn:li:organization:demo123''),
            (''role'', JStr ''ADMINISTRATOR''),
            (''state'', JStr ''APPROVED''),
            (''organizationName'', JStr ''Demo Tech Corp'')],
      JObj [(''organization'', JStr ''urn:li:organization:demo456''),
            (''role'', JStr ''MEMBER''),
            (''state'', JStr ''APPROVED''),
            (''organizationName'', JStr ''Sample Innovations Inc'')]]"

text \<open>
  \<open>getOrganizations(role = null)\<close>. \<open>org.role === role\<close> compares a string with the
  argument: it holds exactly when the argument is that string.
\<close>

definition getOrganizations :: "jsval \<Rightarrow> jsval" where
  "getOrganizations role0 =
     (let role = (if role0 = JUndefined then JNull else role0);
          filteredOrgs =
            (if truthy role
             then filter (\<lambda>org. get org ''role'' = Inr role) mockOrganizations
             else mockOrganizations)
      in JObj [(''status'', JStr ''demo''),
               (''message'', JStr ''Demo organization data. Connect LinkedIn API for real data.''),
               (''data'', JObj [(''elements'', JArr filteredOrgs)])])"

subsection \<open>The handlers\<close>

definition MCPServer_handleToolsList :: jsval where
  "MCPServer_handleToolsList =
     JObj [(''jsonrpc'', JStr ''2.0''),
           (''result'', JObj [(''tools'', JArr (map snd initializeTools))])]"

definition MCPServer_handleInitialize :: "jsval \<Rightarrow> jsval" where
  "MCPServer_handleInitialize params =
     JObj [(''jsonrpc'', JStr ''2.0''),
           (''result'', JObj
              [(''serverInfo'', JObj
                  [(''name'', JStr ''linkedin-mcp-server''),
                   (''version'', JStr ''1.0.0''),
                   (''protocol'', JStr ''MCP 1.0'')]),
               (''capabilities'', JObj
                  [(''tools'', JObj [(''listChanged'', JBool False)]),
                   (''resources'', JObj
                      [(''subscribe'', JBool False), (''listChanged'', JBool False)])])])]"

text \<open>The \<open>switch\<close> inside the \<open>try\<close> of \<open>handleToolsCall\<close>: the executor's result, or what it throws.\<close>

definition callTool :: "runtime \<Rightarrow> jsval \<Rightarrow> jsval \<Rightarrow> js_exn + jsval" where
  "callTool rt toolName arguments' =
     (if toolName = JStr ''get_profile'' then Inr getProfile
      else if toolName = JStr ''create_post'' then
        bind (get arguments' ''text'') (\<lambda>text.
        bind (get arguments' ''visibility'') (\<lambda>visibility.
          createPost rt text (or_else visibility (JStr ''PUBLIC''))))
      else if toolName = JStr ''search_organizations'' then
        bind (get arguments' ''query'') (\<lambda>query.
        bind (get arguments' ''limit'') (\<lambda>limit.
          searchOrganizations rt query (or_else limit (JNum 10))))
      else if toolName = JStr ''get_organizations'' then
        bind (get arguments' ''role'') (\<lambda>role. Inr (getOrganizations role))
      else bind (ToString toolName) (\<lambda>name.
        Inl (Error (''Tool '' @ name @ '' not implemented''))))"

definition content_envelope :: "jsval \<Rightarrow> jsval" where
  "content_envelope result =
     JObj [(''jsonrpc'', JStr ''2.0''),
           (''result'', JObj
              [(''content'', JArr
                  [JObj [(''type'', JStr ''text''), (''text'', JSON_stringify result)]])])]"

text \<open>
  \<open>handleToolsCall(params)\<close>. The registry test \<open>this.tools[toolName]\<close> turns the name
  into a property key, and it stands before the \<open>try\<close>.
\<close>

definition MCPServer_handleToolsCall :: "runtime \<Rightarrow> jsval \<Rightarrow> js_exn + jsval" where
  "MCPServer_handleToolsCall rt params =
     bind (get params ''name'') (\<lambda>toolName.
     bind (get params ''arguments'') (\<lambda>a.
       let arguments' = or_else a (JObj [])
       in bind (ToString toolName) (\<lambda>key.
            if \<not> tools_truthy key
            then Inr (JObj [(''jsonrpc'', JStr ''2.0''),
                            (''error'', JObj
                               [(''code'', JNum (- 32602)),
                                (''message'', JStr (''Unknown tool: '' @ key)),
                                (''data'', JObj
                                   [(''availableTools'', JArr (map JStr (map fst initializeTools)))])])])
            else Inr (case callTool rt toolName arguments' of
                        Inr result \<Rightarrow> content_envelope result
                      | Inl error \<Rightarrow>
                          JObj [(''jsonrpc'', JStr ''2.0''),
                                (''error'', JObj
                                   [(''code'', JNum (- 32603)),
                                    (''message'', JStr (''Internal error: '' @ message error)),
                                    (''data'', JObj
                                       [(''tool'', toolName), (''arguments'', arguments')])])]))))"

section \<open>The service worker (sw.js)\<close>

subsection \<open>\<open>createMCPServerInstance()\<close>: the instance the worker routes to\<close>

definition sw_handleInitialize :: "jsval \<Rightarrow> jsval" where
  "sw_handleInitialize params =
     JObj [(''jsonrpc'', JStr ''2.0''),
           (''result'', JObj
              [(''serverInfo'', JObj
                  [(''name'', JStr ''linkedin-mcp-server''),
                   (''version'', JStr ''1.0.0''),
                   (''protocol'', JStr ''MCP 1.0'')]),
               (''capabilities'', JObj
                  [(''tools'', JObj [(''listChanged'', JBool False)]),
                   (''resources'', JObj
                      [(''subscribe'', JBool False), (''listChanged'', JBool False)])])])]"

definition sw_tools :: "jsval list" where
  "sw_tools =
    [JObj [(''name'', JStr ''get_profile''),
           (''description'', JStr ''Get LinkedIn profile information for the current user''),
           (''inputSchema'', JObj
              [(''type'', JStr ''object''), (''properties'', JObj []), (''required'', JArr [])])],
     JObj [(''name'', JStr ''create_post''),
           (''description'', JStr ''Create a new LinkedIn post''),
           (''inputSchema'', JObj
              [(''type'', JStr ''object''),
               (''properties'', JObj
                  [(''text'', JObj
                      [(''type'', JStr ''string''),
                       (''description'', JStr ''The text content of the post'')]),
                   (''visibility'', JObj
                      [(''type'', JStr ''string''),
                       (''description'', JStr ''Post visibility (PUBLIC or CONNECTIONS)''),
                       (''enum'', JArr [JStr ''PUBLIC'', JStr ''CONNECTIONS'']),
                       (''default'', JStr ''PUBLIC'')])]),
               (''required'', JArr [JStr ''text''])])],
     JObj [(''name'', JStr ''search_organizations''),
           (''description'', JStr ''Search for LinkedIn organizations''),
           (''inputSchema'', JObj
              [(''type'', JStr ''object''),
               (''properties'', JObj
                  [(''query'', JObj
                      [(''type'', JStr ''string''), (''description'', JStr ''Search query'')]),
                   (''limit'', JObj
                      [(''type'', JStr ''number''),
                       (''description'', JStr ''Max results''),
                       (''default'', JNum 10)])]),
               (''required'', JArr [JStr ''query''])])],
     JObj [(''name'', JStr ''get_organizations''),
           (''description'', JStr (''Get user'' @ [CHR 0x27] @ ''s organizations'')),
           (''inputSchema'', JObj
              [(''type'', JStr ''object''),
               (''properties'', JObj
                  [(''role'', JObj
                      [(''type'', JStr ''string''), (''description'', JStr ''Filter by role'')])]),
               (''required'', JArr [])])]]"

definition sw_handleToolsList :: jsval where
  "sw_handleToolsList =
     JObj [(''jsonrpc'', JStr ''2.0''), (''result'', JObj [(''tools'', JArr sw_tools)])]"

text \<open>The \<open>switch\<close> of the instance's \<open>handleToolsCall\<close>: the value of \<open>result\<close>, or what is thrown.\<close>

definition sw_callTool :: "runtime \<Rightarrow> jsval \<Rightarrow> jsval \<Rightarrow> js_exn + jsval" where
  "sw_callTool rt toolName args =
     (if toolName = JStr ''get_profile'' then
        Inr (JObj [(''status'', JStr ''demo''),
                   (''data'', JObj
                      [(''id'', JStr ''demo-user''),
                       (''name'', JStr ''Demo LinkedIn User''),
                       (''headline'', JStr ''Professional using MCP Server''),
                       (''location'', JStr ''San Francisco, CA'')])])
      else if toolName = JStr ''create_post'' then
        bind (get args ''text'') (\<lambda>text.
        bind (ToString text) (\<lambda>t.
        bind (get args ''visibility'') (\<lambda>visibility.
          Inr (JObj [(''status'', JStr ''success''),
                     (''message'', JStr (''Post would be created: '' @ [CHR 0x22] @ t @ [CHR 0x22])),
                     (''data'', JObj
                        [(''visibility'', or_else visibility (JStr ''PUBLIC'')),
                         (''id'', JStr (''post-'' @ show_int (Date_now rt))),
                         (''createdAt'', JStr (Date_toISOString rt))])]))))
      else if toolName = JStr ''search_organizations'' then
        bind (get args ''query'') (\<lambda>query.
        bind (ToString query) (\<lambda>q.
          Inr (JObj [(''status'', JStr ''demo''),
                     (''data'', JObj
                        [(''elements'', JArr
                            [JObj [(''id'', JStr (''org-'' @ show_int (Date_now rt))),
                                   (''name'', JStr (''Demo Organization for '' @ [CHR 0x22] @ q @ [CHR 0x22])),
                                   (''industry'', JStr ''Technology'')]])])])))
      else if toolName = JStr ''get_organizations'' then
        bind (get args ''role'') (\<lambda>role.
          Inr (JObj [(''status'', JStr ''demo''),
                     (''data'', JObj
                        [(''elements'', JArr
                            [JObj [(''organization'', JStr ''urn:li:organization:demo123''),
                                   (''role'', or_else role (JStr ''MEMBER'')),
                                   (''state'', JStr ''APPROVED'')]])])]))
      else bind (ToString toolName) (\<lambda>name.
        Inr (JObj [(''error'', JStr (''Unknown tool: '' @ name))])))"

definition sw_handleToolsCall :: "runtime \<Rightarrow> jsval \<Rightarrow> js_exn + jsval" where
  "sw_handleToolsCall rt params =
     bind (get params ''name'') (\<lambda>toolName.
     bind (get params ''arguments'') (\<lambda>a.
       let args = or_else a (JObj [])
       in bind (sw_callTool rt toolName args) (\<lambda>result. Inr (content_envelope result))))"

subsection \<open>\<open>handleMCPRequest\<close>: the dispatcher\<close>

text \<open>
  The answer of the worker: the envelope handed to \<open>createJSONResponse\<close> and the HTTP
  status. (The headers and the serialisation of the envelope on the wire are the
  transport's.)
\<close>

definition createJSONResponse :: "jsval \<Rightarrow> nat \<Rightarrow> jsval \<times> nat" where
  "createJSONResponse data status = (data, status)"

text \<open>The \<open>switch (method)\<close>: the handler's envelope, or the envelope of an unknown method.\<close>

definition method_switch :: "runtime \<Rightarrow> jsval \<Rightarrow> jsval \<Rightarrow> js_exn + jsval" where
  "method_switch rt method params =
     (if method = JStr ''initialize'' then Inr (sw_handleInitialize params)
      else if method = JStr ''tools/list'' then Inr sw_handleToolsList
      else if method = JStr ''tools/call'' then sw_handleToolsCall rt params
      else bind (ToString method) (\<lambda>m.
        Inr (JObj [(''jsonrpc'', JStr ''2.0''),
                   (''error'', JObj
                      [(''code'', JNum (- 32601)),
                       (''message'', JStr (''Method not found: '' @ m)),
                       (''data'', JObj
                          [(''supportedMethods'',
                            JArr [JStr ''initialize'', JStr ''tools/list'', JStr ''tools/call''])])])])))"

text \<open>The body of the \<open>try\<close>, from the decoded request to the envelope it builds.\<close>

definition handleMCPRequest_try :: "runtime \<Rightarrow> jsval \<Rightarrow> js_exn + jsval" where
  "handleMCPRequest_try rt requestData =
     bind (get requestData ''method'') (\<lambda>method.
     bind (get requestData ''params'') (\<lambda>p.
       let params = or_else p (JObj [])
       in bind (get requestData ''id'') (\<lambda>requestId.
          bind (method_switch rt method params) (\<lambda>response.
            Inr (if requestId \<noteq> JUndefined then set_prop response ''id'' requestId
                 else response)))))"

text \<open>
  \<open>handleMCPRequest(request)\<close>. The argument is the outcome of \<open>await request.json()\<close>:
  the decoded body, or the exception of a body that is not JSON. Whatever is thrown
  inside the \<open>try\<close> ends in the \<open>catch\<close>.
\<close>

definition handleMCPRequest :: "runtime \<Rightarrow> js_exn + jsval \<Rightarrow> jsval \<times> nat" where
  "handleMCPRequest rt request_json =
     (case bind request_json (handleMCPRequest_try rt) of
        Inr response \<Rightarrow> createJSONResponse response 200
      | Inl error \<Rightarrow>
          createJSONResponse
            (JObj [(''jsonrpc'', JStr ''2.0''),
                   (''error'', JObj
                      [(''code'', JNum (- 32603)),
                       (''message'', JStr (''Internal error: '' @ message error)),
                       (''data'', JObj [(''timestamp'', JStr (Date_toISOString rt))])])])
            500)"

section \<open>Reading envelopes\<close>

text \<open>
  For the statements below: the value of a property (undefined when it is not there, and
  on anything that is not an object), a chain of properties, and whether an object has
  a property of its own.
\<close>

fun field :: "jsval \<Rightarrow> string \<Rightarrow> jsval" where
  "field (JObj ps) k = (case map_of ps k of None \<Rightarrow> JUndefined | Some v \<Rightarrow> v)"
| "field v k = JUndefined"

fun path :: "jsval \<Rightarrow> string list \<Rightarrow> jsval" where
  "path v [] = v"
| "path v (k # ks) = path (field v k) ks"

definition has_key :: "jsval \<Rightarrow> string \<Rightarrow> bool" where
  "has_key v k = (k \<in> set (keys v))"

fun elements_of :: "jsval \<Rightarrow> jsval list" where
  "elements_of (JArr xs) = xs"
| "elements_of v = []"

text \<open>
  A JSON-RPC response envelope: \<open>jsonrpc\<close> is "2.0", and exactly one of \<open>result\<close> and
  \<open>error\<close> is there.
\<close>

definition jsonrpc_envelope :: "jsval \<Rightarrow> bool" where
  "jsonrpc_envelope env =
     (field env ''jsonrpc'' = JStr ''2.0'' \<and>
      (field env ''result'' \<noteq> JUndefined \<and> \<not> has_key env ''error'' \<or>
       field env ''error'' \<noteq> JUndefined \<and> \<not> has_key env ''result''))"

text \<open>A clock and a string conversion to run the examples with.\<close>

definition example_runtime :: runtime where
  "example_runtime =
     \<lparr>Date_now = 1700000000000,
      Date_toISOString = ''2023-11-14T22:13:20.000Z'',
      StringToNumber = (\<lambda>s. None)\<rparr>"

text \<open>A \<open>tools/call\<close> request, as a client posts it.\<close>

definition tools_call :: "jsval \<Rightarrow> string \<Rightarrow> (string \<times> jsval) list \<Rightarrow> jsval" where
  "tools_call rid name args =
     JObj [(''jsonrpc'', JStr ''2.0''), (''id'', rid), (''method'', JStr ''tools/call''),
           (''params'', JObj [(''name'', JStr name), (''arguments'', JObj args)])]"

section \<open>Auxiliary facts\<close>

text \<open>Setting \<open>id\<close> on an envelope changes nothing else.\<close>

lemma field_set_prop:
  "field (set_prop (JObj ps) k v) k' = (if k' = k then v else field (JObj ps) k')"
  by (simp add: update_conv')

lemma keys_set_prop:
  "set (keys (set_prop (JObj ps) k v)) = insert k (set (keys (JObj ps)))"
  using dom_update [of k v ps] by simp

text \<open>What the handlers of the worker's instance return.\<close>

lemma sw_handleToolsCall_Inr:
  assumes "sw_handleToolsCall rt params = Inr env"
  shows "\<exists>toolName a r. get params ''name'' = Inr toolName \<and> get params ''arguments'' = Inr a
           \<and> sw_callTool rt toolName (or_else a (JObj [])) = Inr r \<and> env = content_envelope r"
  using assms by (auto simp: sw_handleToolsCall_def bind_def Let_def split: sum.splits)

lemma method_switch_cases:
  assumes "method_switch rt method params = Inr base"
  shows "base = sw_handleInitialize params \<and> method = JStr ''initialize''
       \<or> base = sw_handleToolsList \<and> method = JStr ''tools/list''
       \<or> (method = JStr ''tools/call'' \<and> sw_handleToolsCall rt params = Inr base)
       \<or> (method \<noteq> JStr ''initialize'' \<and> method \<noteq> JStr ''tools/list'' \<and> method \<noteq> JStr ''tools/call'' \<and>
          (\<exists>m. ToString method = Inr m \<and>
            base = JObj [(''jsonrpc'', JStr ''2.0''),
                   (''error'', JObj
                      [(''code'', JNum (- 32601)),
                       (''message'', JStr (''Method not found: '' @ m)),
                       (''data'', JObj
                          [(''supportedMethods'',
                            JArr [JStr ''initialize'', JStr ''tools/list'', JStr ''tools/call''])])])]))"
  using assms by (auto simp: method_switch_def bind_def split: if_splits sum.splits)

lemma method_switch_ok:
  assumes "method_switch rt method params = Inr base"
  shows "jsonrpc_envelope base \<and> \<not> has_key base ''id'' \<and> (\<exists>ps. base = JObj ps)"
  using method_switch_cases [OF assms]
  by (auto simp: jsonrpc_envelope_def has_key_def sw_handleInitialize_def sw_handleToolsList_def
       content_envelope_def dest!: sw_handleToolsCall_Inr)

lemma try_Inr:
  assumes "handleMCPRequest_try rt requestData = Inr response"
  shows "\<exists>method p requestId base.
           get requestData ''method'' = Inr method \<and> get requestData ''params'' = Inr p \<and>
           get requestData ''id'' = Inr requestId \<and>
           method_switch rt method (or_else p (JObj [])) = Inr base \<and>
           response = (if requestId \<noteq> JUndefined then set_prop base ''id'' requestId else base)"
  using assms by (auto simp: handleMCPRequest_try_def bind_def Let_def split: sum.splits)

lemma jsonrpc_envelope_set_id:
  assumes "jsonrpc_envelope (JObj ps)"
  shows "jsonrpc_envelope (set_prop (JObj ps) ''id'' v)"
  using assms unfolding jsonrpc_envelope_def has_key_def
  by (simp only: field_set_prop keys_set_prop) auto

lemma try_envelope:
  assumes "handleMCPRequest_try rt requestData = Inr response"
  shows "jsonrpc_envelope response"
proof -
  from try_Inr [OF assms] obtain meth p requestId base where
    sw: "method_switch rt meth (or_else p (JObj [])) = Inr base" and
    r: "response = (if requestId \<noteq> JUndefined then set_prop base ''id'' requestId else base)"
    by blast
  from method_switch_ok [OF sw] obtain ps where "base = JObj ps" "jsonrpc_envelope base"
    by blast
  with r show ?thesis
    using jsonrpc_envelope_set_id [of ps requestId] by (cases "requestId = JUndefined") simp_all
qed

lemma handleMCPRequest_envelope: "jsonrpc_envelope (fst (handleMCPRequest rt request_json))"
proof (cases "bind request_json (handleMCPRequest_try rt)")
  case (Inl error)
  then show ?thesis
    by (simp add: handleMCPRequest_def createJSONResponse_def jsonrpc_envelope_def has_key_def)
next
  case (Inr response)
  then obtain requestData where "handleMCPRequest_try rt requestData = Inr response"
    by (auto simp: bind_def split: sum.splits)
  from try_envelope [OF this] Inr show ?thesis
    by (simp add: handleMCPRequest_def createJSONResponse_def)
qed

text \<open>The three ways \<open>MCPServer.handleToolsCall\<close> returns.\<close>

lemma MCPServer_handleToolsCall_cases:
  assumes "MCPServer_handleToolsCall rt params = Inr env"
  obtains toolName a key where
    "get params ''name'' = Inr toolName" "get params ''arguments'' = Inr a"
    "ToString toolName = Inr key"
    "\<not> tools_truthy key \<Longrightarrow>
       env = JObj [(''jsonrpc'', JStr ''2.0''),
                   (''error'', JObj
                      [(''code'', JNum (- 32602)),
                       (''message'', JStr (''Unknown tool: '' @ key)),
                       (''data'', JObj
                          [(''availableTools'', JArr (map JStr (map fst initializeTools)))])])]"
    "\<And>result. tools_truthy key \<Longrightarrow> callTool rt toolName (or_else a (JObj [])) = Inr result \<Longrightarrow>
       env = content_envelope result"
    "\<And>error. tools_truthy key \<Longrightarrow> callTool rt toolName (or_else a (JObj [])) = Inl error \<Longrightarrow>
       env = JObj [(''jsonrpc'', JStr ''2.0''),
                   (''error'', JObj
                      [(''code'', JNum (- 32603)),
                       (''message'', JStr (''Internal error: '' @ message error)),
                       (''data'', JObj
                          [(''tool'', toolName), (''arguments'', or_else a (JObj []))])])]"
proof -
  obtain toolName where 1: "get params ''name'' = Inr toolName"
    using assms by (cases "get params ''name''") (simp_all add: MCPServer_handleToolsCall_def bind_def)
  obtain a where 2: "get params ''arguments'' = Inr a"
    using assms 1 by (cases "get params ''arguments''") (simp_all add: MCPServer_handleToolsCall_def bind_def)
  obtain key where 3: "ToString toolName = Inr key"
    using assms 1 2 by (cases "ToString toolName") (simp_all add: MCPServer_handleToolsCall_def bind_def Let_def)
  show thesis
  proof (rule that [OF 1 2 3])
    assume "\<not> tools_truthy key"
    with assms 1 2 3 show "env = JObj [(''jsonrpc'', JStr ''2.0''),
                   (''error'', JObj
                      [(''code'', JNum (- 32602)),
                       (''message'', JStr (''Unknown tool: '' @ key)),
                       (''data'', JObj
                          [(''availableTools'', JArr (map JStr (map fst initializeTools)))])])]"
      by (simp add: MCPServer_handleToolsCall_def bind_def Let_def)
  next
    fix result assume "tools_truthy key" "callTool rt toolName (or_else a (JObj [])) = Inr result"
    with assms 1 2 3 show "env = content_envelope result"
      by (simp add: MCPServer_handleToolsCall_def bind_def Let_def)
  next
    fix error assume "tools_truthy key" "callTool rt toolName (or_else a (JObj [])) = Inl error"
    with assms 1 2 3 show "env = JObj [(''jsonrpc'', JStr ''2.0''),
                   (''error'', JObj
                      [(''code'', JNum (- 32603)),
                       (''message'', JStr (''Internal error: '' @ message error)),
                       (''data'', JObj
                          [(''tool'', toolName), (''arguments'', or_else a (JObj []))])])]"
      by (simp add: MCPServer_handleToolsCall_def bind_def Let_def)
  qed
qed

lemma MCPServer_handleToolsCall_envelope:
  assumes "MCPServer_handleToolsCall rt params = Inr env"
  shows "jsonrpc_envelope env"
proof (rule MCPServer_handleToolsCall_cases [OF assms])
  fix toolName a key
  assume u: "\<not> tools_truthy key \<Longrightarrow>
       env = JObj [(''jsonrpc'', JStr ''2.0''),
                   (''error'', JObj
                      [(''code'', JNum (- 32602)),
                       (''message'', JStr (''Unknown tool: '' @ key)),
                       (''data'', JObj
                          [(''availableTools'', JArr (map JStr (map fst initializeTools)))])])]"
    and ok: "\<And>result. tools_truthy key \<Longrightarrow> callTool rt toolName (or_else a (JObj [])) = Inr result \<Longrightarrow>
       env = content_envelope result"
    and err: "\<And>error. tools_truthy key \<Longrightarrow> callTool rt toolName (or_else a (JObj [])) = Inl error \<Longrightarrow>
       env = JObj [(''jsonrpc'', JStr ''2.0''),
                   (''error'', JObj
                      [(''code'', JNum (- 32603)),
                       (''message'', JStr (''Internal error: '' @ message error)),
                       (''data'', JObj
                          [(''tool'', toolName), (''arguments'', or_else a (JObj []))])])]"
  show ?thesis
  proof (cases "tools_truthy key")
    case False
    with u show ?thesis by (simp add: jsonrpc_envelope_def has_key_def)
  next
    case True
    then show ?thesis
      using ok err
      by (cases "callTool rt toolName (or_else a (JObj []))")
         (simp_all add: jsonrpc_envelope_def has_key_def content_envelope_def)
  qed
qed

text \<open>The worker's answer when nothing is thrown.\<close>

lemma handleMCPRequest_ok:
  assumes "get requestData ''method'' = Inr method"
    and "get requestData ''params'' = Inr p"
    and "get requestData ''id'' = Inr requestId"
    and "method_switch rt method (or_else p (JObj [])) = Inr base"
  shows "handleMCPRequest rt (Inr requestData) =
           (if requestId \<noteq> JUndefined then set_prop base ''id'' requestId else base, 200)"
  using assms
  by (simp add: handleMCPRequest_def handleMCPRequest_try_def bind_def Let_def createJSONResponse_def)

lemma get_total_on_object:
  assumes "get v k = Inr x" and "x \<noteq> JUndefined"
  shows "get v k' = Inr (field v k')"
  using assms by (cases v) auto

lemma JSON_stringify_object: "\<exists>t. JSON_stringify (JObj ps) = JStr t"
  by (simp add: JSON_stringify_def)

lemma callTool_object:
  assumes "callTool rt toolName args = Inr result"
  shows "\<exists>ps. result = JObj ps"
  using assms
  by (auto simp: callTool_def getProfile_def createPost_def searchOrganizations_def
        getOrganizations_def bind_def Let_def split: if_splits sum.splits)

lemma sw_callTool_object:
  assumes "sw_callTool rt toolName args = Inr result"
  shows "\<exists>ps. result = JObj ps"
  using assms
  by (auto simp: sw_callTool_def bind_def split: if_splits sum.splits)

lemma field_content_envelope:
  "field (content_envelope result) ''result''
     = JObj [(''content'', JArr [JObj [(''type'', JStr ''text''), (''text'', JSON_stringify result)]])]"
  by (simp add: content_envelope_def)

lemma MCPServer_success_wrap:
  assumes "MCPServer_handleToolsCall rt params = Inr env" and "has_key env ''result''"
  shows "\<exists>toolName a result t.
           get params ''name'' = Inr toolName \<and> get params ''arguments'' = Inr a \<and>
           callTool rt toolName (or_else a (JObj [])) = Inr result \<and>
           JSON_stringify result = JStr t \<and>
           field env ''result''
             = JObj [(''content'', JArr [JObj [(''type'', JStr ''text''), (''text'', JStr t)]])]"
proof (rule MCPServer_handleToolsCall_cases [OF assms(1)])
  fix toolName a key
  assume n: "get params ''name'' = Inr toolName" and a: "get params ''arguments'' = Inr a"
    and u: "\<not> tools_truthy key \<Longrightarrow>
       env = JObj [(''jsonrpc'', JStr ''2.0''),
                   (''error'', JObj
                      [(''code'', JNum (- 32602)),
                       (''message'', JStr (''Unknown tool: '' @ key)),
                       (''data'', JObj
                          [(''availableTools'', JArr (map JStr (map fst initializeTools)))])])]"
    and ok: "\<And>result. tools_truthy key \<Longrightarrow> callTool rt toolName (or_else a (JObj [])) = Inr result \<Longrightarrow>
       env = content_envelope result"
    and err: "\<And>error. tools_truthy key \<Longrightarrow> callTool rt toolName (or_else a (JObj [])) = Inl error \<Longrightarrow>
       env = JObj [(''jsonrpc'', JStr ''2.0''),
                   (''error'', JObj
                      [(''code'', JNum (- 32603)),
                       (''message'', JStr (''Internal error: '' @ message error)),
                       (''data'', JObj
                          [(''tool'', toolName), (''arguments'', or_else a (JObj []))])])]"
  have t: "tools_truthy key"
    using u assms(2) by (cases "tools_truthy key") (simp_all add: has_key_def)
  obtain result where r: "callTool rt toolName (or_else a (JObj [])) = Inr result"
    using err [OF t] assms(2) by (cases "callTool rt toolName (or_else a (JObj []))") (simp_all add: has_key_def)
  from callTool_object [OF r] JSON_stringify_object obtain t' where "JSON_stringify result = JStr t'"
    by blast
  with n a r ok [OF t r] show ?thesis
    by (simp add: field_content_envelope)
qed

lemma sw_success_wrap:
  assumes "get requestData ''method'' = Inr (JStr ''tools/call'')"
    and "has_key (fst (handleMCPRequest rt (Inr requestData))) ''result''"
  shows "\<exists>toolName a result t.
           get (or_else (field requestData ''params'') (JObj [])) ''name'' = Inr toolName \<and>
           get (or_else (field requestData ''params'') (JObj [])) ''arguments'' = Inr a \<and>
           sw_callTool rt toolName (or_else a (JObj [])) = Inr result \<and>
           JSON_stringify result = JStr t \<and>
           field (fst (handleMCPRequest rt (Inr requestData))) ''result''
             = JObj [(''content'', JArr [JObj [(''type'', JStr ''text''), (''text'', JStr t)]])]"
proof -
  let ?p = "field requestData ''params''" and ?id = "field requestData ''id''"
  let ?params = "or_else ?p (JObj [])"
  have p: "get requestData ''params'' = Inr ?p" and i: "get requestData ''id'' = Inr ?id"
    using get_total_on_object [OF assms(1)] by simp_all
  have sw: "method_switch rt (JStr ''tools/call'') ?params = sw_handleToolsCall rt ?params"
    by (simp add: method_switch_def)
  show ?thesis
  proof (cases "sw_handleToolsCall rt ?params")
    case (Inl error)
    with assms(1) p i sw have "handleMCPRequest rt (Inr requestData) =
        (JObj [(''jsonrpc'', JStr ''2.0''),
                   (''error'', JObj
                      [(''code'', JNum (- 32603)),
                       (''message'', JStr (''Internal error: '' @ message error)),
                       (''data'', JObj [(''timestamp'', JStr (Date_toISOString rt))])])], 500)"
      by (simp add: handleMCPRequest_def handleMCPRequest_try_def bind_def Let_def createJSONResponse_def)
    with assms(2) show ?thesis by (simp add: has_key_def)
  next
    case (Inr base)
    from sw_handleToolsCall_Inr [OF Inr] obtain toolName a r where
      n: "get ?params ''name'' = Inr toolName" and a: "get ?params ''arguments'' = Inr a" and
      r: "sw_callTool rt toolName (or_else a (JObj [])) = Inr r" and b: "base = content_envelope r"
      by blast
    from sw_callTool_object [OF r] JSON_stringify_object obtain t where t: "JSON_stringify r = JStr t"
      by blast
    have "handleMCPRequest rt (Inr requestData) =
             (if ?id \<noteq> JUndefined then set_prop base ''id'' ?id else base, 200)"
      using Inr sw by (intro handleMCPRequest_ok [OF assms(1) p i]) simp
    then have "field (fst (handleMCPRequest rt (Inr requestData))) ''result'' = field base ''result''"
      by (cases "?id = JUndefined") (simp_all add: b content_envelope_def update_conv')
    with n a r t b show ?thesis
      by (simp add: field_content_envelope)
  qed
qed

text \<open>With a string query the loop runs through \<open>[i..m]\<close> and raises nothing.\<close>

lemma search_loop_string:
  "search_loop (JStr q) m i acc = Inr (acc @ map (\<lambda>j. projr (mockResult (JStr q) j)) [i..m])"
proof (induction "JStr q" m i acc rule: search_loop.induct)
  case (1 m i mockResults)
  show ?case
  proof (cases "i \<le> m")
    case True
    then have "[i..m] = i # [i + 1..m]"
      by (simp add: upto_rec1)
    with True 1 show ?thesis
      by (subst search_loop.simps) (simp add: bind_def)
  next
    case False
    then show ?thesis
      by (subst search_loop.simps) simp
  qed
qed

lemma searchOrganizations_string:
  "searchOrganizations rt (JStr q) (JNum l) =
     Inr (JObj [(''status'', JStr ''demo''),
                (''message'', JStr ''Demo search results. Connect LinkedIn API for real data.''),
                (''data'', JObj
                   [(''elements'', JArr (map (\<lambda>j. projr (mockResult (JStr q) j)) [1..min l 5])),
                    (''paging'', JObj
                       [(''total'', JNum (int (nat (min l 5)))),
                        (''count'', JNum (int (nat (min l 5)))),
                        (''start'', JNum 0)])])])"
  by (simp add: searchOrganizations_def bind_def search_loop_string)

lemma elements_searchOrganizations:
  "elements_of (path (projr (searchOrganizations rt (JStr q) (JNum l))) [''data'', ''elements''])
     = map (\<lambda>j. projr (mockResult (JStr q) j)) [1..min l 5]"
  by (simp add: searchOrganizations_string)

lemma contains_Acme: "\<exists>pre post. ''Acme'' @ s = pre @ ''Acme'' @ post"
  by (metis append_Nil)

lemma tools_truthy_registered:
  "tools_truthy ''get_profile''" "tools_truthy ''create_post''"
  "tools_truthy ''search_organizations''" "tools_truthy ''get_organizations''"
  by (simp_all add: tools_truthy_def initializeTools_def)

lemma MCPServer_call_ok:
  assumes "tools_truthy n" and "callTool rt (JStr n) (or_else a (JObj [])) = Inr result"
  shows "MCPServer_handleToolsCall rt (JObj [(''name'', JStr n), (''arguments'', a)])
           = Inr (content_envelope result)"
  using assms by (simp add: MCPServer_handleToolsCall_def bind_def Let_def)

lemma field_mockResult:
  "field (projr (mockResult (JStr q) i)) ''id''
     = JStr (''org-'' @ replace_spaces (toLowerCase q) @ ''-'' @ show_int i)"
  "field (projr (mockResult (JStr q) i)) ''localizedName'' = JStr (q @ '' Organization '' @ show_int i)"
  "field (projr (mockResult (JStr q) i)) ''industry'' = JStr (industries ! nat (i mod 5))"
  "field (projr (mockResult (JStr q) i)) ''location'' = JStr (locations ! nat (i mod 5))"
  by simp_all

lemma nat_succ_mod5: "nat ((1 + int k) mod 5) = Suc k mod 5"
  by (metis nat_int of_nat_Suc of_nat_mod of_nat_numeral)

text \<open>Reading an argument object after one property is set or removed.\<close>

lemma get_update:
  "get (JObj (AList.update k v ps)) k' = Inr (if k' = k then v else field (JObj ps) k')"
  by (simp add: update_conv')

lemma get_delete:
  "get (JObj (AList.delete k ps)) k' = Inr (if k' = k then JUndefined else field (JObj ps) k')"
  by (simp add: delete_conv')

lemma or_else_falsy: "\<not> truthy v \<Longrightarrow> or_else v d = or_else JUndefined d"
  by (simp add: or_else_def)

lemma getOrganizations_falsy: "\<not> truthy v \<Longrightarrow> getOrganizations v = getOrganizations JUndefined"
  by (simp add: getOrganizations_def)

lemma callTool_falsy_optional:
  assumes "\<not> truthy v" and "k = ''visibility'' \<or> k = ''limit'' \<or> k = ''role''"
  shows "callTool rt toolName (JObj (AList.update k v ps)) = callTool rt toolName (JObj (AList.delete k ps))"
  using assms(2) or_else_falsy [OF assms(1)] getOrganizations_falsy [OF assms(1)]
  unfolding callTool_def get_update get_delete bind_def
  by (auto simp del: get.simps field.simps)

lemma handleToolsCall_falsy_arguments:
  assumes "\<not> truthy a"
  shows "MCPServer_handleToolsCall rt (JObj [(''name'', n), (''arguments'', a)])
           = MCPServer_handleToolsCall rt (JObj [(''name'', n), (''arguments'', JObj [])])"
    and "MCPServer_handleToolsCall rt (JObj [(''name'', n), (''arguments'', a)])
           = MCPServer_handleToolsCall rt (JObj [(''name'', n)])"
  using assms by (simp_all add: MCPServer_handleToolsCall_def bind_def or_else_def)

lemma get_Inr_field: "get v k = Inr x \<Longrightarrow> x = field v k"
  by (cases v) auto

lemma handleMCPRequest_status:
  "snd (handleMCPRequest rt request_json) = 200 \<or> snd (handleMCPRequest rt request_json) = 500"
  by (cases "bind request_json (handleMCPRequest_try rt)")
     (simp_all add: handleMCPRequest_def createJSONResponse_def)

lemma handleMCPRequest_catch:
  assumes "bind request_json (handleMCPRequest_try rt) = Inl error"
  shows "handleMCPRequest rt request_json =
           (JObj [(''jsonrpc'', JStr ''2.0''),
                  (''error'', JObj
                     [(''code'', JNum (- 32603)),
                      (''message'', JStr (''Internal error: '' @ message error)),
                      (''data'', JObj [(''timestamp'', JStr (Date_toISOString rt))])])], 500)"
  using assms by (simp add: handleMCPRequest_def createJSONResponse_def)

lemma MCPServer_executor_raises:
  assumes "get params ''name'' = Inr toolName" and "get params ''arguments'' = Inr a"
    and "ToString toolName = Inr key" and "tools_truthy key"
    and "callTool rt toolName (or_else a (JObj [])) = Inl error"
  shows "MCPServer_handleToolsCall rt params =
           Inr (JObj [(''jsonrpc'', JStr ''2.0''),
                      (''error'', JObj
                         [(''code'', JNum (- 32603)),
                          (''message'', JStr (''Internal error: '' @ message error)),
                          (''data'', JObj
                             [(''tool'', toolName), (''arguments'', or_else a (JObj []))])])])"
  using assms by (simp add: MCPServer_handleToolsCall_def bind_def Let_def)

text \<open>A number is printed with at least one digit.\<close>

lemma show_nat_not_empty: "show_nat n \<noteq> []"
  by (subst show_nat.simps) simp

lemma show_int_not_empty: "show_int i \<noteq> []"
  by (simp add: show_int_def show_nat_not_empty)

section \<open>The claims\<close>

text \<open>
  The repository holds two implementations of the tool handlers: the class \<open>MCPServer\<close>
  of mcpServer.js, and the instance that \<open>createMCPServerInstance\<close> of sw.js builds
  ("simplified for Service Worker"). Only the second is routed to: the dispatcher is
  \<open>handleMCPRequest\<close>, with its method switch, its echo of the request id and its
  catch-all. Each statement below says which of the two it is about.
\<close>

subsection \<open>C1: a tool name that is not registered\<close>

text \<open>
  C1 says that a \<open>tools/call\<close> whose \<open>params.name\<close> is not a registered tool name
  is answered with error code -32602 and the list of registered names. The code does
  otherwise in two places. The dispatcher \<open>handleMCPRequest\<close> routes to the worker's own
  instance, whose \<open>default\<close> branch wraps \<open>{error: "Unknown tool: foo"}\<close> as a
  successful result. And \<open>MCPServer.handleToolsCall\<close> tests \<open>this.tools[toolName]\<close>,
  which is truthy for every name \<open>Object.prototype\<close> defines: \<open>toString\<close> passes the
  test, falls to the \<open>default\<close> of the switch, and comes back as -32603.
\<close>

theorem unknown_tool_not_rejected:
  "handleMCPRequest example_runtime (Inr (tools_call (JNum 1) ''foo'' []))
     = (JObj [(''jsonrpc'', JStr ''2.0''),
              (''result'', JObj
                 [(''content'', JArr
                     [JObj [(''type'', JStr ''text''),
                            (''text'', JSON_stringify (JObj [(''error'', JStr ''Unknown tool: foo'')]))]])]),
              (''id'', JNum 1)], 200) \<and>
   MCPServer_handleToolsCall example_runtime (JObj [(''name'', JStr ''toString'')])
     = Inr (JObj [(''jsonrpc'', JStr ''2.0''),
                  (''error'', JObj
                     [(''code'', JNum (- 32603)),
                      (''message'', JStr ''Internal error: Tool toString not implemented''),
                      (''data'', JObj [(''tool'', JStr ''toString''), (''arguments'', JObj [])])])])"
  by (simp add: handleMCPRequest_def handleMCPRequest_try_def method_switch_def
      sw_handleToolsCall_def sw_callTool_def tools_call_def bind_def or_else_def
      content_envelope_def createJSONResponse_def MCPServer_handleToolsCall_def
      tools_truthy_def initializeTools_def Object_prototype_properties_def callTool_def)

subsection \<open>C2: search_organizations returns at most five records\<close>

text \<open>
  C2, for \<open>MCPServer.searchOrganizations\<close> with a string query \<open>q\<close> and an integer
  limit \<open>l\<close>: the result holds \<open>max 0 (min l 5)\<close> records (written \<open>nat (min l 5)\<close>);
  record number \<open>i\<close>, counted from 1, has the id \<open>org-<q in lower case, white space
  as hyphens>-<i>\<close> and the localizedName \<open><q> Organization <i>\<close>, and its industry and
  location stand at position \<open>i mod 5\<close> of two lists of five. And
  \<open>MCPServer.handleToolsCall\<close> with query "Acme" and limit 100 wraps a result of
  exactly five records, each with "Acme" in its localizedName.
\<close>

theorem search_organizations_capped:
  "(\<exists>r. searchOrganizations rt (JStr q) (JNum l) = Inr r \<and>
        length (elements_of (path r [''data'', ''elements''])) = nat (min l 5) \<and>
        (\<forall>k < nat (min l 5).
           field (elements_of (path r [''data'', ''elements'']) ! k) ''id''
             = JStr (''org-'' @ replace_spaces (toLowerCase q) @ ''-'' @ show_int (int k + 1)) \<and>
           field (elements_of (path r [''data'', ''elements'']) ! k) ''localizedName''
             = JStr (q @ '' Organization '' @ show_int (int k + 1)) \<and>
           field (elements_of (path r [''data'', ''elements'']) ! k) ''industry''
             = JStr (industries ! ((k + 1) mod 5)) \<and>
           field (elements_of (path r [''data'', ''elements'']) ! k) ''location''
             = JStr (locations ! ((k + 1) mod 5)))) \<and>
   length industries = 5 \<and> length locations = 5 \<and>
   (\<exists>r. MCPServer_handleToolsCall rt
           (JObj [(''name'', JStr ''search_organizations''),
                  (''arguments'', JObj [(''query'', JStr ''Acme''), (''limit'', JNum 100)])])
          = Inr (content_envelope r) \<and>
        length (elements_of (path r [''data'', ''elements''])) = 5 \<and>
        (\<forall>org \<in> set (elements_of (path r [''data'', ''elements''])).
           \<exists>pre post. field org ''localizedName'' = JStr (pre @ ''Acme'' @ post)))"
proof (intro conjI)
  let ?r = "projr (searchOrganizations rt (JStr q) (JNum l))"
  have r: "searchOrganizations rt (JStr q) (JNum l) = Inr ?r"
    by (simp add: searchOrganizations_string)
  have e: "elements_of (path ?r [''data'', ''elements''])
             = map (\<lambda>j. projr (mockResult (JStr q) j)) [1..min l 5]"
    by (rule elements_searchOrganizations)
  have n: "[1..min l 5] ! k = int k + 1" if "k < nat (min l 5)" for k
    using that by (subst nth_upto) auto
  show "\<exists>r. searchOrganizations rt (JStr q) (JNum l) = Inr r \<and>
        length (elements_of (path r [''data'', ''elements''])) = nat (min l 5) \<and>
        (\<forall>k < nat (min l 5).
           field (elements_of (path r [''data'', ''elements'']) ! k) ''id''
             = JStr (''org-'' @ replace_spaces (toLowerCase q) @ ''-'' @ show_int (int k + 1)) \<and>
           field (elements_of (path r [''data'', ''elements'']) ! k) ''localizedName''
             = JStr (q @ '' Organization '' @ show_int (int k + 1)) \<and>
           field (elements_of (path r [''data'', ''elements'']) ! k) ''industry''
             = JStr (industries ! ((k + 1) mod 5)) \<and>
           field (elements_of (path r [''data'', ''elements'']) ! k) ''location''
             = JStr (locations ! ((k + 1) mod 5)))"
  proof (intro exI [of _ ?r] conjI allI impI)
    show "searchOrganizations rt (JStr q) (JNum l) = Inr ?r" by (rule r)
    show "length (elements_of (path ?r [''data'', ''elements''])) = nat (min l 5)"
      unfolding e by simp
  next
    fix k assume k: "k < nat (min l 5)"
    then have i: "elements_of (path ?r [''data'', ''elements'']) ! k
                    = projr (mockResult (JStr q) (int k + 1))"
      unfolding e by (simp add: n)
    show "field (elements_of (path ?r [''data'', ''elements'']) ! k) ''id''
             = JStr (''org-'' @ replace_spaces (toLowerCase q) @ ''-'' @ show_int (int k + 1))"
      unfolding i by (rule field_mockResult)
    show "field (elements_of (path ?r [''data'', ''elements'']) ! k) ''localizedName''
             = JStr (q @ '' Organization '' @ show_int (int k + 1))"
      unfolding i by (rule field_mockResult)
    show "field (elements_of (path ?r [''data'', ''elements'']) ! k) ''industry''
             = JStr (industries ! ((k + 1) mod 5))"
      unfolding i field_mockResult using nat_succ_mod5 [of k] by (simp add: add.commute)
    show "field (elements_of (path ?r [''data'', ''elements'']) ! k) ''location''
             = JStr (locations ! ((k + 1) mod 5))"
      unfolding i field_mockResult using nat_succ_mod5 [of k] by (simp add: add.commute)
  qed
next
  show "length industries = 5" by (simp add: industries_def)
  show "length locations = 5" by (simp add: locations_def)
next
  let ?r = "projr (searchOrganizations rt (JStr ''Acme'') (JNum 100))"
  have r: "searchOrganizations rt (JStr ''Acme'') (JNum 100) = Inr ?r"
    by (simp add: searchOrganizations_string)
  have e: "elements_of (path ?r [''data'', ''elements''])
             = map (\<lambda>j. projr (mockResult (JStr ''Acme'') j)) [1..5]"
    using elements_searchOrganizations [of rt "''Acme''" 100] by simp
  have c: "callTool rt (JStr ''search_organizations'')
             (or_else (JObj [(''query'', JStr ''Acme''), (''limit'', JNum 100)]) (JObj [])) = Inr ?r"
    using r by (simp add: callTool_def or_else_def bind_def)
  have 1: "MCPServer_handleToolsCall rt
           (JObj [(''name'', JStr ''search_organizations''),
                  (''arguments'', JObj [(''query'', JStr ''Acme''), (''limit'', JNum 100)])])
          = Inr (content_envelope ?r)"
    by (rule MCPServer_call_ok [OF tools_truthy_registered(3) c])
  have 2: "length (elements_of (path ?r [''data'', ''elements''])) = 5"
    unfolding e by simp
  have 3: "\<forall>org \<in> set (elements_of (path ?r [''data'', ''elements''])).
             \<exists>pre post. field org ''localizedName'' = JStr (pre @ ''Acme'' @ post)"
    unfolding e using contains_Acme by (auto simp del: mockResult.simps simp: field_mockResult)
  from 1 2 3 show "\<exists>r. MCPServer_handleToolsCall rt
           (JObj [(''name'', JStr ''search_organizations''),
                  (''arguments'', JObj [(''query'', JStr ''Acme''), (''limit'', JNum 100)])])
          = Inr (content_envelope r) \<and>
        length (elements_of (path r [''data'', ''elements''])) = 5 \<and>
        (\<forall>org \<in> set (elements_of (path r [''data'', ''elements''])).
           \<exists>pre post. field org ''localizedName'' = JStr (pre @ ''Acme'' @ post))"
    by blast
qed

theorem search_organizations_capped_witness:
  "\<exists>r. searchOrganizations example_runtime (JStr ''Acme Corp'') (JNum 3) = Inr r \<and>
       length (elements_of (path r [''data'', ''elements''])) = 3 \<and>
       field (elements_of (path r [''data'', ''elements'']) ! 1) ''id'' = JStr ''org-acme-corp-2'' \<and>
       field (elements_of (path r [''data'', ''elements'']) ! 1) ''localizedName''
         = JStr ''Acme Corp Organization 2'' \<and>
       field (elements_of (path r [''data'', ''elements'']) ! 1) ''industry'' = JStr ''Healthcare'' \<and>
       field (elements_of (path r [''data'', ''elements'']) ! 1) ''location'' = JStr ''Seattle, WA''"
proof -
  from search_organizations_capped [of example_runtime "''Acme Corp''" 3]
  obtain r where r: "searchOrganizations example_runtime (JStr ''Acme Corp'') (JNum 3) = Inr r"
    and l: "length (elements_of (path r [''data'', ''elements''])) = nat (min 3 5)"
    and e: "\<forall>k < nat (min 3 5).
           field (elements_of (path r [''data'', ''elements'']) ! k) ''id''
             = JStr (''org-'' @ replace_spaces (toLowerCase ''Acme Corp'') @ ''-'' @ show_int (int k + 1)) \<and>
           field (elements_of (path r [''data'', ''elements'']) ! k) ''localizedName''
             = JStr (''Acme Corp'' @ '' Organization '' @ show_int (int k + 1)) \<and>
           field (elements_of (path r [''data'', ''elements'']) ! k) ''industry''
             = JStr (industries ! ((k + 1) mod 5)) \<and>
           field (elements_of (path r [''data'', ''elements'']) ! k) ''location''
             = JStr (locations ! ((k + 1) mod 5))"
    by blast
  have "(1::nat) < nat (min 3 5)" by simp
  with e have
    "field (elements_of (path r [''data'', ''elements'']) ! 1) ''id''
       = JStr (''org-'' @ replace_spaces (toLowerCase ''Acme Corp'') @ ''-'' @ show_int (int 1 + 1))"
    "field (elements_of (path r [''data'', ''elements'']) ! 1) ''localizedName''
       = JStr (''Acme Corp'' @ '' Organization '' @ show_int (int 1 + 1))"
    "field (elements_of (path r [''data'', ''elements'']) ! 1) ''industry''
       = JStr (industries ! ((1 + 1) mod 5))"
    "field (elements_of (path r [''data'', ''elements'']) ! 1) ''location''
       = JStr (locations ! ((1 + 1) mod 5))"
    by blast+
  moreover have "replace_spaces (toLowerCase ''Acme Corp'') = ''acme-corp''"
    by (simp add: toLowerCase_def is_space_def)
  moreover have "show_int (int 1 + 1) = ''2''"
    by (simp add: show_int_def show_nat.simps)
  moreover have "industries ! ((1 + 1) mod 5) = ''Healthcare''" "locations ! ((1 + 1) mod 5) = ''Seattle, WA''"
    by (simp_all add: industries_def locations_def)
  ultimately show ?thesis
    using r l by (intro exI [of _ r]) simp
qed

text \<open>
  As C2 is written it fails twice: a limit of -1 gives no record, where \<open>min (-1) 5\<close> is
  -1; and the dispatcher, which routes to the worker's own instance, answers the "Acme"
  request with a single record, whatever the limit.
\<close>

theorem search_organizations_counterexample:
  "searchOrganizations example_runtime (JStr ''Acme'') (JNum (- 1))
     = Inr (JObj [(''status'', JStr ''demo''),
                  (''message'', JStr ''Demo search results. Connect LinkedIn API for real data.''),
                  (''data'', JObj
                     [(''elements'', JArr []),
                      (''paging'', JObj
                         [(''total'', JNum 0), (''count'', JNum 0), (''start'', JNum 0)])])]) \<and>
   handleMCPRequest example_runtime
     (Inr (tools_call (JNum 1) ''search_organizations'' [(''query'', JStr ''Acme''), (''limit'', JNum 100)]))
     = (JObj [(''jsonrpc'', JStr ''2.0''),
              (''result'', JObj
                 [(''content'', JArr
                     [JObj [(''type'', JStr ''text''),
                            (''text'', JSON_stringify
                               (JObj [(''status'', JStr ''demo''),
                                      (''data'', JObj
                                         [(''elements'', JArr
                                             [JObj [(''id'', JStr ''org-1700000000000''),
                                                    (''name'', JStr (''Demo Organization for '' @ [CHR 0x22] @ ''Acme'' @ [CHR 0x22])),
                                                    (''industry'', JStr ''Technology'')]])])]))]])]),
              (''id'', JNum 1)], 200)"
  by (simp add: searchOrganizations_string handleMCPRequest_def handleMCPRequest_try_def method_switch_def
      sw_handleToolsCall_def sw_callTool_def tools_call_def bind_def or_else_def
      content_envelope_def createJSONResponse_def example_runtime_def show_int_def show_nat.simps)

subsection \<open>C3: failures become error envelopes\<close>

text \<open>
  C3, for the dispatcher \<open>handleMCPRequest\<close>: it always answers, with status 200 or
  500 and a well-formed envelope, and whatever is thrown while the request is handled
  (\<open>request.json()\<close> included) becomes an error envelope with code -32603 whose message
  is "Internal error: " followed by the exception's message. And for
  \<open>MCPServer.handleToolsCall\<close>: when the executor of a call raises, the envelope
  returned has code -32603, that same message, and \<open>data\<close> holding the tool name and
  the arguments passed.
\<close>

theorem failures_become_error_envelopes:
  "(snd (handleMCPRequest rt request_json) = 200 \<or> snd (handleMCPRequest rt request_json) = 500) \<and>
   jsonrpc_envelope (fst (handleMCPRequest rt request_json)) \<and>
   (bind request_json (handleMCPRequest_try rt) = Inl error \<longrightarrow>
      snd (handleMCPRequest rt request_json) = 500 \<and>
      path (fst (handleMCPRequest rt request_json)) [''error'', ''code''] = JNum (- 32603) \<and>
      path (fst (handleMCPRequest rt request_json)) [''error'', ''message'']
        = JStr (''Internal error: '' @ message error)) \<and>
   (get params ''name'' = Inr toolName \<and> get params ''arguments'' = Inr a \<and>
    ToString toolName = Inr key \<and> tools_truthy key \<and>
    callTool rt toolName (or_else a (JObj [])) = Inl error' \<longrightarrow>
      (\<exists>env. MCPServer_handleToolsCall rt params = Inr env \<and>
             path env [''error'', ''code''] = JNum (- 32603) \<and>
             path env [''error'', ''message''] = JStr (''Internal error: '' @ message error') \<and>
             path env [''error'', ''data'', ''tool''] = toolName \<and>
             path env [''error'', ''data'', ''arguments''] = or_else a (JObj []) \<and>
             \<not> has_key env ''result''))"
proof (intro conjI impI)
  show "snd (handleMCPRequest rt request_json) = 200 \<or> snd (handleMCPRequest rt request_json) = 500"
    by (rule handleMCPRequest_status)
  show "jsonrpc_envelope (fst (handleMCPRequest rt request_json))"
    by (rule handleMCPRequest_envelope)
next
  assume "bind request_json (handleMCPRequest_try rt) = Inl error"
  from handleMCPRequest_catch [OF this]
  show "snd (handleMCPRequest rt request_json) = 500"
    and "path (fst (handleMCPRequest rt request_json)) [''error'', ''code''] = JNum (- 32603)"
    and "path (fst (handleMCPRequest rt request_json)) [''error'', ''message'']
        = JStr (''Internal error: '' @ message error)"
    by simp_all
next
  assume "get params ''name'' = Inr toolName \<and> get params ''arguments'' = Inr a \<and>
    ToString toolName = Inr key \<and> tools_truthy key \<and>
    callTool rt toolName (or_else a (JObj [])) = Inl error'"
  then have "MCPServer_handleToolsCall rt params =
           Inr (JObj [(''jsonrpc'', JStr ''2.0''),
                      (''error'', JObj
                         [(''code'', JNum (- 32603)),
                          (''message'', JStr (''Internal error: '' @ message error')),
                          (''data'', JObj
                             [(''tool'', toolName), (''arguments'', or_else a (JObj []))])])])"
    using MCPServer_executor_raises by blast
  then show "\<exists>env. MCPServer_handleToolsCall rt params = Inr env \<and>
             path env [''error'', ''code''] = JNum (- 32603) \<and>
             path env [''error'', ''message''] = JStr (''Internal error: '' @ message error') \<and>
             path env [''error'', ''data'', ''tool''] = toolName \<and>
             path env [''error'', ''data'', ''arguments''] = or_else a (JObj []) \<and>
             \<not> has_key env ''result''"
    by (simp add: has_key_def)
qed

theorem failures_become_error_envelopes_witness:
  "bind (Inr JNull) (handleMCPRequest_try example_runtime)
     = Inl (TypeError (''Cannot read properties of null (reading '' @ [CHR 0x27] @ ''method'' @ [CHR 0x27] @ '')'')) \<and>
   snd (handleMCPRequest example_runtime (Inr JNull)) = 500 \<and>
   path (fst (handleMCPRequest example_runtime (Inr JNull))) [''error'', ''message'']
     = JStr (''Internal error: Cannot read properties of null (reading '' @ [CHR 0x27] @ ''method'' @ [CHR 0x27] @ '')'') \<and>
   callTool example_runtime (JStr ''search_organizations'') (or_else JUndefined (JObj []))
     = Inl (TypeError (''Cannot read properties of undefined (reading '' @ [CHR 0x27] @ ''toLowerCase'' @ [CHR 0x27] @ '')'')) \<and>
   (\<exists>env. MCPServer_handleToolsCall example_runtime (JObj [(''name'', JStr ''search_organizations'')]) = Inr env \<and>
          path env [''error'', ''code''] = JNum (- 32603) \<and>
          path env [''error'', ''data'', ''tool''] = JStr ''search_organizations'' \<and>
          path env [''error'', ''data'', ''arguments''] = JObj [])"
proof -
  let ?e = "TypeError (''Cannot read properties of null (reading '' @ [CHR 0x27] @ ''method'' @ [CHR 0x27] @ '')'')"
  let ?e' = "TypeError (''Cannot read properties of undefined (reading '' @ [CHR 0x27] @ ''toLowerCase'' @ [CHR 0x27] @ '')'')"
  have 1: "bind (Inr JNull) (handleMCPRequest_try example_runtime) = Inl ?e"
    by (simp add: bind_def handleMCPRequest_try_def)
  have 2: "get (JObj [(''name'', JStr ''search_organizations'')]) ''name'' = Inr (JStr ''search_organizations'')"
    "get (JObj [(''name'', JStr ''search_organizations'')]) ''arguments'' = Inr JUndefined"
    "ToString (JStr ''search_organizations'') = Inr ''search_organizations''"
    by simp_all
  have 3: "callTool example_runtime (JStr ''search_organizations'') (or_else JUndefined (JObj [])) = Inl ?e'"
    by (simp add: callTool_def or_else_def bind_def searchOrganizations_def search_loop.simps)
  note t = failures_become_error_envelopes
    [where rt = example_runtime and request_json = "Inr JNull" and error = ?e
       and params = "JObj [(''name'', JStr ''search_organizations'')]"
       and toolName = "JStr ''search_organizations''" and a = JUndefined
       and key = "''search_organizations''" and error' = ?e']
  from t 1 have 4: "snd (handleMCPRequest example_runtime (Inr JNull)) = 500"
    and 5: "path (fst (handleMCPRequest example_runtime (Inr JNull))) [''error'', ''message'']
        = JStr (''Internal error: '' @ message ?e)"
    by blast+
  from t 2 3 tools_truthy_registered(3)
  have 6: "\<exists>env. MCPServer_handleToolsCall example_runtime (JObj [(''name'', JStr ''search_organizations'')]) = Inr env \<and>
          path env [''error'', ''code''] = JNum (- 32603) \<and>
          path env [''error'', ''data'', ''tool''] = JStr ''search_organizations'' \<and>
          path env [''error'', ''data'', ''arguments''] = or_else JUndefined (JObj [])"
    by blast
  from 1 3 4 5 6 show ?thesis
    by (simp add: or_else_def)
qed

text \<open>
  As C3 is written it fails on the dispatcher: the worker's instance has no \<open>try\<close> of
  its own, so an exception of its \<open>create_post\<close> branch (here the text is an object
  with a property \<open>toString\<close>, which cannot be converted to a string) reaches the
  catch-all, whose \<open>data\<close> holds a timestamp and neither the tool name nor the
  arguments.
\<close>

theorem executor_exception_loses_tool_and_arguments:
  "sw_callTool example_runtime (JStr ''create_post'') (JObj [(''text'', JObj [(''toString'', JNum 1)])])
     = Inl (TypeError ''Cannot convert object to primitive value'') \<and>
   handleMCPRequest example_runtime
     (Inr (tools_call (JNum 1) ''create_post'' [(''text'', JObj [(''toString'', JNum 1)])]))
     = (JObj [(''jsonrpc'', JStr ''2.0''),
              (''error'', JObj
                 [(''code'', JNum (- 32603)),
                  (''message'', JStr ''Internal error: Cannot convert object to primitive value''),
                  (''data'', JObj [(''timestamp'', JStr ''2023-11-14T22:13:20.000Z'')])])], 500) \<and>
   path (fst (handleMCPRequest example_runtime
     (Inr (tools_call (JNum 1) ''create_post'' [(''text'', JObj [(''toString'', JNum 1)])]))))
     [''error'', ''data'', ''tool''] = JUndefined \<and>
   path (fst (handleMCPRequest example_runtime
     (Inr (tools_call (JNum 1) ''create_post'' [(''text'', JObj [(''toString'', JNum 1)])]))))
     [''error'', ''data'', ''arguments''] = JUndefined"
  by (simp add: handleMCPRequest_def handleMCPRequest_try_def method_switch_def
      sw_handleToolsCall_def sw_callTool_def tools_call_def bind_def or_else_def
      createJSONResponse_def example_runtime_def)

subsection \<open>C4: a tool's result is serialised into one text item\<close>

text \<open>
  C4: whenever \<open>MCPServer.handleToolsCall\<close> returns an envelope with a \<open>result\<close>, and
  whenever the dispatcher answers a \<open>tools/call\<close> with one, that result is exactly
  \<open>{content: [{type: "text", text: t}]}\<close>, where \<open>t\<close> is the string
  \<open>JSON.stringify(result, null, 2)\<close> of what the executor returned: the structured
  output itself is never a field of the envelope.
\<close>

theorem tool_result_wrapped_as_text:
  "(MCPServer_handleToolsCall rt params = Inr env \<and> has_key env ''result'' \<longrightarrow>
      (\<exists>toolName a result t.
           get params ''name'' = Inr toolName \<and> get params ''arguments'' = Inr a \<and>
           callTool rt toolName (or_else a (JObj [])) = Inr result \<and>
           JSON_stringify result = JStr t \<and>
           field env ''result''
             = JObj [(''content'', JArr [JObj [(''type'', JStr ''text''), (''text'', JStr t)]])])) \<and>
   (get requestData ''method'' = Inr (JStr ''tools/call'') \<and>
    has_key (fst (handleMCPRequest rt (Inr requestData))) ''result'' \<longrightarrow>
      (\<exists>toolName a result t.
           get (or_else (field requestData ''params'') (JObj [])) ''name'' = Inr toolName \<and>
           get (or_else (field requestData ''params'') (JObj [])) ''arguments'' = Inr a \<and>
           sw_callTool rt toolName (or_else a (JObj [])) = Inr result \<and>
           JSON_stringify result = JStr t \<and>
           field (fst (handleMCPRequest rt (Inr requestData))) ''result''
             = JObj [(''content'', JArr [JObj [(''type'', JStr ''text''), (''text'', JStr t)]])]))"
  using MCPServer_success_wrap [of rt params env] sw_success_wrap [of requestData rt]
  by blast

theorem tool_result_wrapped_as_text_witness:
  "MCPServer_handleToolsCall example_runtime (JObj [(''name'', JStr ''get_profile'')])
     = Inr (content_envelope getProfile) \<and>
   has_key (content_envelope getProfile) ''result'' \<and>
   (\<exists>t. JSON_stringify getProfile = JStr t \<and>
        field (content_envelope getProfile) ''result''
          = JObj [(''content'', JArr [JObj [(''type'', JStr ''text''), (''text'', JStr t)]])])"
proof -
  have h: "MCPServer_handleToolsCall example_runtime (JObj [(''name'', JStr ''get_profile'')])
             = Inr (content_envelope getProfile)"
    by (simp add: MCPServer_handleToolsCall_def bind_def or_else_def tools_truthy_registered callTool_def)
  have k: "has_key (content_envelope getProfile) ''result''"
    by (simp add: has_key_def content_envelope_def)
  from tool_result_wrapped_as_text
         [where rt = example_runtime and params = "JObj [(''name'', JStr ''get_profile'')]"
            and env = "content_envelope getProfile"] h k
  obtain toolName a result t where
    "get (JObj [(''name'', JStr ''get_profile'')]) ''name'' = Inr toolName"
    "get (JObj [(''name'', JStr ''get_profile'')]) ''arguments'' = Inr a"
    "callTool example_runtime toolName (or_else a (JObj [])) = Inr result"
    "JSON_stringify result = JStr t"
    "field (content_envelope getProfile) ''result''
       = JObj [(''content'', JArr [JObj [(''type'', JStr ''text''), (''text'', JStr t)]])]"
    by blast
  then have "JSON_stringify getProfile = JStr t"
    by (simp add: callTool_def field_content_envelope)
  with h k \<open>field (content_envelope getProfile) ''result''
       = JObj [(''content'', JArr [JObj [(''type'', JStr ''text''), (''text'', JStr t)]])]\<close>
  show ?thesis by blast
qed

subsection \<open>C5: tools/list\<close>

text \<open>
  C5: for every request whose method is \<open>tools/list\<close>, whatever else it holds, the
  dispatcher answers with status 200 and \<open>result.tools\<close> equal to the four descriptors
  of the worker's instance, named get_profile, create_post, search_organizations and
  get_organizations in this order; and \<open>MCPServer.handleToolsList\<close> returns the values of
  the registry in insertion order, which carry the same four names in the same order.
\<close>

theorem tools_list_registry_order:
  assumes "get requestData ''method'' = Inr (JStr ''tools/list'')"
  shows "snd (handleMCPRequest rt (Inr requestData)) = 200 \<and>
         path (fst (handleMCPRequest rt (Inr requestData))) [''result'', ''tools''] = JArr sw_tools \<and>
         map (\<lambda>t. field t ''name'') sw_tools
           = [JStr ''get_profile'', JStr ''create_post'', JStr ''search_organizations'',
              JStr ''get_organizations''] \<and>
         path MCPServer_handleToolsList [''result'', ''tools''] = JArr (map snd initializeTools) \<and>
         map fst initializeTools
           = [''get_profile'', ''create_post'', ''search_organizations'', ''get_organizations''] \<and>
         map (\<lambda>t. field t ''name'') (map snd initializeTools)
           = [JStr ''get_profile'', JStr ''create_post'', JStr ''search_organizations'',
              JStr ''get_organizations'']"
proof -
  let ?p = "field requestData ''params''" and ?id = "field requestData ''id''"
  have p: "get requestData ''params'' = Inr ?p" and i: "get requestData ''id'' = Inr ?id"
    using get_total_on_object [OF assms(1)] by simp_all
  have sw: "method_switch rt (JStr ''tools/list'') (or_else ?p (JObj [])) = Inr sw_handleToolsList"
    by (simp add: method_switch_def)
  have r: "handleMCPRequest rt (Inr requestData) =
             (if ?id \<noteq> JUndefined then set_prop sw_handleToolsList ''id'' ?id
              else sw_handleToolsList, 200)"
    by (rule handleMCPRequest_ok [OF assms(1) p i sw])
  have 1: "snd (handleMCPRequest rt (Inr requestData)) = 200"
    unfolding r by simp
  have 2: "path (fst (handleMCPRequest rt (Inr requestData))) [''result'', ''tools''] = JArr sw_tools"
    unfolding r by (cases "?id = JUndefined") (simp_all add: sw_handleToolsList_def update_conv')
  have 3: "map (\<lambda>t. field t ''name'') sw_tools
           = [JStr ''get_profile'', JStr ''create_post'', JStr ''search_organizations'',
              JStr ''get_organizations'']"
    by (simp add: sw_tools_def)
  have 4: "path MCPServer_handleToolsList [''result'', ''tools''] = JArr (map snd initializeTools)"
    by (simp add: MCPServer_handleToolsList_def)
  have 5: "map fst initializeTools
           = [''get_profile'', ''create_post'', ''search_organizations'', ''get_organizations'']"
    by (simp add: initializeTools_def)
  have 6: "map (\<lambda>t. field t ''name'') (map snd initializeTools)
           = [JStr ''get_profile'', JStr ''create_post'', JStr ''search_organizations'',
              JStr ''get_organizations'']"
    by (simp add: initializeTools_def)
  from 1 2 3 4 5 6 show ?thesis by blast
qed

theorem tools_list_registry_order_witness:
  "get (JObj [(''jsonrpc'', JStr ''2.0''), (''id'', JNum 1), (''method'', JStr ''tools/list''),
              (''params'', JObj [(''cursor'', JStr ''x'')])]) ''method'' = Inr (JStr ''tools/list'') \<and>
   path (fst (handleMCPRequest example_runtime
     (Inr (JObj [(''jsonrpc'', JStr ''2.0''), (''id'', JNum 1), (''method'', JStr ''tools/list''),
              (''params'', JObj [(''cursor'', JStr ''x'')])])))) [''result'', ''tools''] = JArr sw_tools"
proof -
  have h: "get (JObj [(''jsonrpc'', JStr ''2.0''), (''id'', JNum 1), (''method'', JStr ''tools/list''),
              (''params'', JObj [(''cursor'', JStr ''x'')])]) ''method'' = Inr (JStr ''tools/list'')"
    by simp
  from tools_list_registry_order [OF h, of example_runtime] h show ?thesis
    by blast
qed

subsection \<open>C6: the request id is echoed\<close>

text \<open>
  C6, for every decoded request: when the dispatcher answers with status 200, an id
  that is there (0, the empty string and null included) is copied to the envelope as it
  is, and an id that is not there is not added; when it answers otherwise, the status
  is 500 and the envelope of the catch-all carries no id.
\<close>

theorem request_id_echoed:
  "(snd (handleMCPRequest rt (Inr requestData)) = 200 \<and> field requestData ''id'' \<noteq> JUndefined \<longrightarrow>
      has_key (fst (handleMCPRequest rt (Inr requestData))) ''id'' \<and>
      field (fst (handleMCPRequest rt (Inr requestData))) ''id'' = field requestData ''id'') \<and>
   (field requestData ''id'' = JUndefined \<longrightarrow>
      \<not> has_key (fst (handleMCPRequest rt (Inr requestData))) ''id'') \<and>
   (snd (handleMCPRequest rt (Inr requestData)) \<noteq> 200 \<longrightarrow>
      snd (handleMCPRequest rt (Inr requestData)) = 500 \<and>
      \<not> has_key (fst (handleMCPRequest rt (Inr requestData))) ''id'')"
proof (cases "handleMCPRequest_try rt requestData")
  case (Inl error)
  then show ?thesis
    by (simp add: handleMCPRequest_def bind_def createJSONResponse_def has_key_def)
next
  case (Inr response)
  from try_Inr [OF Inr] obtain meth p requestId base where
    i: "get requestData ''id'' = Inr requestId" and
    sw: "method_switch rt meth (or_else p (JObj [])) = Inr base" and
    r: "response = (if requestId \<noteq> JUndefined then set_prop base ''id'' requestId else base)"
    by blast
  from method_switch_ok [OF sw] obtain ps where b: "base = JObj ps" "\<not> has_key base ''id''"
    by blast
  have f: "requestId = field requestData ''id''"
    by (rule get_Inr_field [OF i])
  have h: "handleMCPRequest rt (Inr requestData) = (response, 200)"
    using Inr by (simp add: handleMCPRequest_def bind_def createJSONResponse_def)
  show ?thesis
  proof (cases "requestId = JUndefined")
    case True
    with r b f h show ?thesis by simp
  next
    case False
    with r b have "response = JObj (AList.update ''id'' requestId ps)" by simp
    with False f h show ?thesis
      by (simp add: has_key_def update_conv' dom_update)
  qed
qed

theorem request_id_echoed_witness:
  "snd (handleMCPRequest example_runtime (Inr (JObj [(''method'', JStr ''initialize''), (''id'', JNum 0)]))) = 200 \<and>
   field (JObj [(''method'', JStr ''initialize''), (''id'', JNum 0)]) ''id'' \<noteq> JUndefined \<and>
   field (fst (handleMCPRequest example_runtime
      (Inr (JObj [(''method'', JStr ''initialize''), (''id'', JNum 0)])))) ''id'' = JNum 0 \<and>
   field (JObj [(''method'', JStr ''initialize'')]) ''id'' = JUndefined \<and>
   \<not> has_key (fst (handleMCPRequest example_runtime (Inr (JObj [(''method'', JStr ''initialize'')])))) ''id''"
proof -
  have s: "snd (handleMCPRequest example_runtime (Inr (JObj [(''method'', JStr ''initialize''), (''id'', JNum 0)]))) = 200"
    by (simp add: handleMCPRequest_def handleMCPRequest_try_def method_switch_def bind_def
        createJSONResponse_def)
  have d: "field (JObj [(''method'', JStr ''initialize''), (''id'', JNum 0)]) ''id'' \<noteq> JUndefined"
    and u: "field (JObj [(''method'', JStr ''initialize'')]) ''id'' = JUndefined"
    by simp_all
  from request_id_echoed [of example_runtime "JObj [(''method'', JStr ''initialize''), (''id'', JNum 0)]"]
    s d
  have 1: "field (fst (handleMCPRequest example_runtime
      (Inr (JObj [(''method'', JStr ''initialize''), (''id'', JNum 0)])))) ''id'' = JNum 0"
    by simp
  from request_id_echoed [of example_runtime "JObj [(''method'', JStr ''initialize'')]"] u
  have 2: "\<not> has_key (fst (handleMCPRequest example_runtime (Inr (JObj [(''method'', JStr ''initialize'')])))) ''id''"
    by blast
  from s d u 1 2 show ?thesis by blast
qed

text \<open>
  As C6 is written it fails when handling the request raises: the request below has the
  id 7, its query cannot be converted to a string, and the answer carries no id.
\<close>

theorem request_id_lost_on_exception:
  "get (tools_call (JNum 7) ''search_organizations'' [(''query'', JObj [(''toString'', JNull)])]) ''id''
     = Inr (JNum 7) \<and>
   snd (handleMCPRequest example_runtime
     (Inr (tools_call (JNum 7) ''search_organizations'' [(''query'', JObj [(''toString'', JNull)])]))) = 500 \<and>
   \<not> has_key (fst (handleMCPRequest example_runtime
     (Inr (tools_call (JNum 7) ''search_organizations'' [(''query'', JObj [(''toString'', JNull)])])))) ''id''"
  by (simp add: handleMCPRequest_def handleMCPRequest_try_def method_switch_def
      sw_handleToolsCall_def sw_callTool_def tools_call_def bind_def or_else_def
      createJSONResponse_def example_runtime_def has_key_def)

subsection \<open>C7: a method that is not known\<close>

text \<open>
  C7: for every request whose method is a string other than \<open>initialize\<close>,
  \<open>tools/list\<close> and \<open>tools/call\<close>, the dispatcher answers (with status 200) an error
  envelope with code -32601, the message "Method not found: " followed by the method,
  and \<open>data.supportedMethods\<close> equal to the three method names in this order.
\<close>

theorem unknown_method_not_found:
  assumes "get requestData ''method'' = Inr (JStr m)"
    and "m \<noteq> ''initialize''" and "m \<noteq> ''tools/list''" and "m \<noteq> ''tools/call''"
  shows "snd (handleMCPRequest rt (Inr requestData)) = 200 \<and>
         path (fst (handleMCPRequest rt (Inr requestData))) [''error'', ''code''] = JNum (- 32601) \<and>
         path (fst (handleMCPRequest rt (Inr requestData))) [''error'', ''message'']
           = JStr (''Method not found: '' @ m) \<and>
         path (fst (handleMCPRequest rt (Inr requestData))) [''error'', ''data'', ''supportedMethods'']
           = JArr [JStr ''initialize'', JStr ''tools/list'', JStr ''tools/call''] \<and>
         \<not> has_key (fst (handleMCPRequest rt (Inr requestData))) ''result''"
proof -
  let ?base = "JObj [(''jsonrpc'', JStr ''2.0''),
                   (''error'', JObj
                      [(''code'', JNum (- 32601)),
                       (''message'', JStr (''Method not found: '' @ m)),
                       (''data'', JObj
                          [(''supportedMethods'',
                            JArr [JStr ''initialize'', JStr ''tools/list'', JStr ''tools/call''])])])]"
  let ?p = "field requestData ''params''" and ?id = "field requestData ''id''"
  have p: "get requestData ''params'' = Inr ?p" and i: "get requestData ''id'' = Inr ?id"
    using get_total_on_object [OF assms(1)] by simp_all
  have sw: "method_switch rt (JStr m) (or_else ?p (JObj [])) = Inr ?base"
    using assms(2-4) by (simp add: method_switch_def bind_def)
  have r: "handleMCPRequest rt (Inr requestData) =
             (if ?id \<noteq> JUndefined then set_prop ?base ''id'' ?id else ?base, 200)"
    by (rule handleMCPRequest_ok [OF assms(1) p i sw])
  show ?thesis
    unfolding r by (cases "?id = JUndefined") (simp_all add: has_key_def update_conv' image_iff)
qed

theorem unknown_method_not_found_witness:
  "get (JObj [(''method'', JStr ''resources/list''), (''id'', JStr [])]) ''method''
     = Inr (JStr ''resources/list'') \<and>
   path (fst (handleMCPRequest example_runtime
      (Inr (JObj [(''method'', JStr ''resources/list''), (''id'', JStr [])])))) [''error'', ''code'']
     = JNum (- 32601) \<and>
   path (fst (handleMCPRequest example_runtime
      (Inr (JObj [(''method'', JStr ''resources/list''), (''id'', JStr [])])))) [''error'', ''message'']
     = JStr ''Method not found: resources/list''"
proof -
  have h: "get (JObj [(''method'', JStr ''resources/list''), (''id'', JStr [])]) ''method''
             = Inr (JStr ''resources/list'')"
    by simp
  have n: "''resources/list'' \<noteq> ''initialize''" "''resources/list'' \<noteq> ''tools/list''"
    "''resources/list'' \<noteq> ''tools/call''"
    by simp_all
  from unknown_method_not_found [OF h n, of example_runtime] h show ?thesis
    by simp
qed

subsection \<open>C8: get_organizations filters by role\<close>

text \<open>
  C8, for \<open>MCPServer.getOrganizations\<close>: without a role it returns the two fixed
  entries; with a role that is a non-empty string it returns exactly those of the two
  whose \<open>role\<close> is that string; and the role "MEMBER" gives the second entry alone.
\<close>

theorem get_organizations_filter:
  "path (getOrganizations JUndefined) [''data'', ''elements''] = JArr mockOrganizations \<and>
   length mockOrganizations = 2 \<and>
   (role \<noteq> [] \<longrightarrow>
      path (getOrganizations (JStr role)) [''data'', ''elements'']
        = JArr (filter (\<lambda>org. field org ''role'' = JStr role) mockOrganizations)) \<and>
   path (getOrganizations (JStr ''MEMBER'')) [''data'', ''elements''] = JArr [mockOrganizations ! 1] \<and>
   field (mockOrganizations ! 1) ''role'' = JStr ''MEMBER''"
  by (simp add: getOrganizations_def mockOrganizations_def)

theorem get_organizations_filter_witness:
  "''ADMINISTRATOR'' \<noteq> [] \<and>
   path (getOrganizations (JStr ''ADMINISTRATOR'')) [''data'', ''elements'']
     = JArr [JObj [(''organization'', JStr ''urn:li:organization:demo123''),
                   (''role'', JStr ''ADMINISTRATOR''),
                   (''state'', JStr ''APPROVED''),
                   (''organizationName'', JStr ''Demo Tech Corp'')]]"
proof -
  have h: "''ADMINISTRATOR'' \<noteq> []" by simp
  from get_organizations_filter [of "''ADMINISTRATOR''"] h
  have "path (getOrganizations (JStr ''ADMINISTRATOR'')) [''data'', ''elements'']
        = JArr (filter (\<lambda>org. field org ''role'' = JStr ''ADMINISTRATOR'') mockOrganizations)"
    by blast
  with h show ?thesis
    by (simp add: mockOrganizations_def)
qed

text \<open>
  As C8 is written it fails for the empty string, which is a role string: it is falsy,
  no filter is applied and both entries come back, though neither has the role "".
\<close>

theorem get_organizations_empty_role_counterexample:
  "path (getOrganizations (JStr [])) [''data'', ''elements''] = JArr mockOrganizations \<and>
   filter (\<lambda>org. field org ''role'' = JStr []) mockOrganizations = [] \<and>
   mockOrganizations \<noteq> []"
  by (simp add: getOrganizations_def mockOrganizations_def)

subsection \<open>C9: every answer is a JSON-RPC envelope\<close>

text \<open>
  C9: whatever \<open>request.json()\<close> yields, the envelope the dispatcher answers with has
  \<open>jsonrpc\<close> equal to "2.0" and exactly one of \<open>result\<close> and \<open>error\<close>; and so has
  every envelope that \<open>handleInitialize\<close>, \<open>handleToolsList\<close> and \<open>handleToolsCall\<close>
  of \<open>MCPServer\<close> return.
\<close>

theorem response_envelope_well_formed:
  "jsonrpc_envelope (fst (handleMCPRequest rt request_json)) \<and>
   jsonrpc_envelope (MCPServer_handleInitialize p) \<and>
   jsonrpc_envelope MCPServer_handleToolsList \<and>
   (MCPServer_handleToolsCall rt params = Inr env \<longrightarrow> jsonrpc_envelope env)"
  using handleMCPRequest_envelope MCPServer_handleToolsCall_envelope
  by (simp add: jsonrpc_envelope_def has_key_def MCPServer_handleInitialize_def
      MCPServer_handleToolsList_def)

theorem response_envelope_well_formed_witness:
  "MCPServer_handleToolsCall example_runtime (JObj [(''name'', JStr ''get_profile'')])
     = Inr (content_envelope getProfile) \<and>
   jsonrpc_envelope (content_envelope getProfile)"
proof -
  have h: "MCPServer_handleToolsCall example_runtime (JObj [(''name'', JStr ''get_profile'')])
             = Inr (content_envelope getProfile)"
    by (simp add: MCPServer_handleToolsCall_def bind_def or_else_def tools_truthy_registered callTool_def)
  from response_envelope_well_formed
         [where rt = example_runtime and params = "JObj [(''name'', JStr ''get_profile'')]"
            and env = "content_envelope getProfile"] h
  show ?thesis by blast
qed

subsection \<open>C10: optional arguments default by truthiness\<close>

text \<open>
  C10, for \<open>MCPServer.handleToolsCall\<close>: falsy \<open>params.arguments\<close> (null, say) are
  handled as the empty object and as no arguments at all; a falsy value of
  \<open>visibility\<close>, \<open>limit\<close> or \<open>role\<close> reaches the executor exactly as if the property
  were not there; so \<open>create_post\<close> with visibility "" posts with "PUBLIC",
  \<open>search_organizations\<close> with limit 0 and a string query returns five records, and
  \<open>get_organizations\<close> with role "" returns both fixed entries.
\<close>

theorem falsy_optional_arguments_default:
  "(\<not> truthy a \<longrightarrow>
      MCPServer_handleToolsCall rt (JObj [(''name'', n), (''arguments'', a)])
        = MCPServer_handleToolsCall rt (JObj [(''name'', n), (''arguments'', JObj [])]) \<and>
      MCPServer_handleToolsCall rt (JObj [(''name'', n), (''arguments'', a)])
        = MCPServer_handleToolsCall rt (JObj [(''name'', n)])) \<and>
   (\<not> truthy v \<and> (k = ''visibility'' \<or> k = ''limit'' \<or> k = ''role'') \<longrightarrow>
      callTool rt toolName (JObj (AList.update k v ps)) = callTool rt toolName (JObj (AList.delete k ps))) \<and>
   (\<exists>r. MCPServer_handleToolsCall rt
           (JObj [(''name'', JStr ''create_post''),
                  (''arguments'', JObj [(''text'', text), (''visibility'', JStr [])])])
          = Inr (content_envelope r) \<and>
        path r [''data'', ''visibility''] = JStr ''PUBLIC'') \<and>
   (\<exists>r. MCPServer_handleToolsCall rt
           (JObj [(''name'', JStr ''search_organizations''),
                  (''arguments'', JObj [(''query'', JStr q), (''limit'', JNum 0)])])
          = Inr (content_envelope r) \<and>
        length (elements_of (path r [''data'', ''elements''])) = 5) \<and>
   (\<exists>r. MCPServer_handleToolsCall rt
           (JObj [(''name'', JStr ''get_organizations''),
                  (''arguments'', JObj [(''role'', JStr [])])])
          = Inr (content_envelope r) \<and>
        path r [''data'', ''elements''] = JArr mockOrganizations \<and> length mockOrganizations = 2)"
proof (intro conjI impI)
  assume "\<not> truthy a"
  then show "MCPServer_handleToolsCall rt (JObj [(''name'', n), (''arguments'', a)])
        = MCPServer_handleToolsCall rt (JObj [(''name'', n), (''arguments'', JObj [])])"
    and "MCPServer_handleToolsCall rt (JObj [(''name'', n), (''arguments'', a)])
        = MCPServer_handleToolsCall rt (JObj [(''name'', n)])"
    by (rule handleToolsCall_falsy_arguments)+
next
  assume "\<not> truthy v \<and> (k = ''visibility'' \<or> k = ''limit'' \<or> k = ''role'')"
  then show "callTool rt toolName (JObj (AList.update k v ps)) = callTool rt toolName (JObj (AList.delete k ps))"
    using callTool_falsy_optional by blast
next
  let ?r = "projr (createPost rt text (JStr ''PUBLIC''))"
  have c: "callTool rt (JStr ''create_post'')
             (or_else (JObj [(''text'', text), (''visibility'', JStr [])]) (JObj [])) = Inr ?r"
    by (simp add: callTool_def or_else_def bind_def createPost_def)
  have "path ?r [''data'', ''visibility''] = JStr ''PUBLIC''"
    by (simp add: createPost_def bind_def)
  with MCPServer_call_ok [OF tools_truthy_registered(2) c]
  show "\<exists>r. MCPServer_handleToolsCall rt
           (JObj [(''name'', JStr ''create_post''),
                  (''arguments'', JObj [(''text'', text), (''visibility'', JStr [])])])
          = Inr (content_envelope r) \<and>
        path r [''data'', ''visibility''] = JStr ''PUBLIC''"
    by blast
next
  let ?r = "projr (searchOrganizations rt (JStr q) (JNum 10))"
  have r: "searchOrganizations rt (JStr q) (JNum 10) = Inr ?r"
    by (simp add: searchOrganizations_string)
  have c: "callTool rt (JStr ''search_organizations'')
             (or_else (JObj [(''query'', JStr q), (''limit'', JNum 0)]) (JObj [])) = Inr ?r"
    using r by (simp add: callTool_def or_else_def bind_def)
  have "length (elements_of (path ?r [''data'', ''elements''])) = 5"
    using elements_searchOrganizations [of rt q 10] by simp
  with MCPServer_call_ok [OF tools_truthy_registered(3) c]
  show "\<exists>r. MCPServer_handleToolsCall rt
           (JObj [(''name'', JStr ''search_organizations''),
                  (''arguments'', JObj [(''query'', JStr q), (''limit'', JNum 0)])])
          = Inr (content_envelope r) \<and>
        length (elements_of (path r [''data'', ''elements''])) = 5"
    by blast
next
  have c: "callTool rt (JStr ''get_organizations'')
             (or_else (JObj [(''role'', JStr [])]) (JObj [])) = Inr (getOrganizations (JStr []))"
    by (simp add: callTool_def or_else_def bind_def)
  have "path (getOrganizations (JStr [])) [''data'', ''elements''] = JArr mockOrganizations"
    and "length mockOrganizations = 2"
    by (simp_all add: getOrganizations_def mockOrganizations_def)
  with MCPServer_call_ok [OF tools_truthy_registered(4) c]
  show "\<exists>r. MCPServer_handleToolsCall rt
           (JObj [(''name'', JStr ''get_organizations''),
                  (''arguments'', JObj [(''role'', JStr [])])])
          = Inr (content_envelope r) \<and>
        path r [''data'', ''elements''] = JArr mockOrganizations \<and> length mockOrganizations = 2"
    by blast
qed

theorem falsy_optional_arguments_default_witness:
  "\<not> truthy JNull \<and>
   MCPServer_handleToolsCall example_runtime (JObj [(''name'', JStr ''get_profile''), (''arguments'', JNull)])
     = MCPServer_handleToolsCall example_runtime (JObj [(''name'', JStr ''get_profile'')]) \<and>
   \<not> truthy (JNum 0) \<and>
   callTool example_runtime (JStr ''search_organizations'')
       (JObj (AList.update ''limit'' (JNum 0) [(''query'', JStr ''Acme''), (''limit'', JNum 3)]))
     = callTool example_runtime (JStr ''search_organizations'')
       (JObj (AList.delete ''limit'' [(''query'', JStr ''Acme''), (''limit'', JNum 3)]))"
proof -
  have h: "\<not> truthy JNull" "\<not> truthy (JNum 0)" by simp_all
  from falsy_optional_arguments_default
         [of JNull example_runtime "JStr ''get_profile''" "JNum 0" "''limit''"
             "JStr ''search_organizations''" "[(''query'', JStr ''Acme''), (''limit'', JNum 3)]"] h
  show ?thesis by blast
qed

section \<open>Further properties\<close>

subsection \<open>Names that MCPServer.handleToolsCall does reject\<close>

text \<open>
  For \<open>MCPServer.handleToolsCall\<close>: a name that is neither registered nor a property
  name of \<open>Object.prototype\<close> is answered with code -32602, the message
  "Unknown tool: " followed by the name, and the four registered names.
\<close>

theorem MCPServer_rejects_unknown_tool:
  assumes "get params ''name'' = Inr (JStr n)"
    and "n \<notin> set (map fst initializeTools)" and "n \<notin> set Object_prototype_properties"
  shows "\<exists>env. MCPServer_handleToolsCall rt params = Inr env \<and>
           path env [''error'', ''code''] = JNum (- 32602) \<and>
           path env [''error'', ''message''] = JStr (''Unknown tool: '' @ n) \<and>
           path env [''error'', ''data'', ''availableTools'']
             = JArr [JStr ''get_profile'', JStr ''create_post'', JStr ''search_organizations'',
                     JStr ''get_organizations''] \<and>
           \<not> has_key env ''result''"
proof -
  have a: "get params ''arguments'' = Inr (field params ''arguments'')"
    using get_total_on_object [OF assms(1)] by simp
  have "map_of initializeTools n = None"
    using assms(2) by (simp add: map_of_eq_None_iff)
  with assms(3) have "\<not> tools_truthy n"
    by (simp add: tools_truthy_def)
  with assms(1) a have "MCPServer_handleToolsCall rt params =
      Inr (JObj [(''jsonrpc'', JStr ''2.0''),
                 (''error'', JObj
                    [(''code'', JNum (- 32602)),
                     (''message'', JStr (''Unknown tool: '' @ n)),
                     (''data'', JObj
                        [(''availableTools'', JArr (map JStr (map fst initializeTools)))])])])"
    by (simp add: MCPServer_handleToolsCall_def bind_def Let_def)
  moreover have "map JStr (map fst initializeTools)
      = [JStr ''get_profile'', JStr ''create_post'', JStr ''search_organizations'',
         JStr ''get_organizations'']"
    by (simp add: initializeTools_def)
  ultimately show ?thesis
    by (simp add: has_key_def)
qed

theorem MCPServer_rejects_unknown_tool_witness:
  "get (JObj [(''name'', JStr ''foo'')]) ''name'' = Inr (JStr ''foo'') \<and>
   ''foo'' \<notin> set (map fst initializeTools) \<and> ''foo'' \<notin> set Object_prototype_properties \<and>
   (\<exists>env. MCPServer_handleToolsCall example_runtime (JObj [(''name'', JStr ''foo'')]) = Inr env \<and>
          path env [''error'', ''code''] = JNum (- 32602) \<and>
          path env [''error'', ''message''] = JStr ''Unknown tool: foo'')"
proof -
  have h: "get (JObj [(''name'', JStr ''foo'')]) ''name'' = Inr (JStr ''foo'')"
    "''foo'' \<notin> set (map fst initializeTools)" "''foo'' \<notin> set Object_prototype_properties"
    by (simp_all add: initializeTools_def Object_prototype_properties_def)
  from MCPServer_rejects_unknown_tool [OF h, of example_runtime] h show ?thesis
    by auto
qed

subsection \<open>initialize\<close>

text \<open>
  For every request whose method is \<open>initialize\<close>, whatever its params, the dispatcher
  answers with the protocol "MCP 1.0" and the three capability flags false; the class and
  the worker's instance build the same envelope.
\<close>

theorem initialize_fixed_result:
  assumes "get requestData ''method'' = Inr (JStr ''initialize'')"
  shows "snd (handleMCPRequest rt (Inr requestData)) = 200 \<and>
         path (fst (handleMCPRequest rt (Inr requestData))) [''result'', ''serverInfo'', ''protocol'']
           = JStr ''MCP 1.0'' \<and>
         path (fst (handleMCPRequest rt (Inr requestData))) [''result'', ''capabilities'', ''tools'', ''listChanged'']
           = JBool False \<and>
         path (fst (handleMCPRequest rt (Inr requestData))) [''result'', ''capabilities'', ''resources'', ''subscribe'']
           = JBool False \<and>
         path (fst (handleMCPRequest rt (Inr requestData))) [''result'', ''capabilities'', ''resources'', ''listChanged'']
           = JBool False \<and>
         MCPServer_handleInitialize p = sw_handleInitialize p'"
proof -
  let ?p = "field requestData ''params''" and ?id = "field requestData ''id''"
  have p: "get requestData ''params'' = Inr ?p" and i: "get requestData ''id'' = Inr ?id"
    using get_total_on_object [OF assms(1)] by simp_all
  have sw: "method_switch rt (JStr ''initialize'') (or_else ?p (JObj []))
              = Inr (sw_handleInitialize (or_else ?p (JObj [])))"
    by (simp add: method_switch_def)
  have r: "handleMCPRequest rt (Inr requestData) =
             (if ?id \<noteq> JUndefined then set_prop (sw_handleInitialize (or_else ?p (JObj []))) ''id'' ?id
              else sw_handleInitialize (or_else ?p (JObj [])), 200)"
    by (rule handleMCPRequest_ok [OF assms(1) p i sw])
  show ?thesis
    unfolding r
    by (cases "?id = JUndefined")
       (simp_all add: sw_handleInitialize_def MCPServer_handleInitialize_def update_conv')
qed

theorem initialize_fixed_result_witness:
  "get (JObj [(''method'', JStr ''initialize''), (''params'', JObj [(''x'', JNum 1)])]) ''method''
     = Inr (JStr ''initialize'') \<and>
   path (fst (handleMCPRequest example_runtime
      (Inr (JObj [(''method'', JStr ''initialize''), (''params'', JObj [(''x'', JNum 1)])]))))
      [''result'', ''serverInfo'', ''protocol''] = JStr ''MCP 1.0''"
proof -
  have h: "get (JObj [(''method'', JStr ''initialize''), (''params'', JObj [(''x'', JNum 1)])]) ''method''
     = Inr (JStr ''initialize'')"
    by simp
  from initialize_fixed_result [OF h, of example_runtime] h show ?thesis
    by blast
qed

subsection \<open>create_post without a visibility\<close>

text \<open>
  \<open>MCPServer.handleToolsCall\<close> for \<open>create_post\<close> with a text and no visibility wraps a
  result whose data hold that text, the visibility "PUBLIC" and a non-empty id made from
  the clock.
\<close>

theorem create_post_defaults_to_public:
  "\<exists>r. MCPServer_handleToolsCall rt
          (JObj [(''name'', JStr ''create_post''), (''arguments'', JObj [(''text'', JStr t)])])
         = Inr (content_envelope r) \<and>
       path r [''data'', ''visibility''] = JStr ''PUBLIC'' \<and>
       path r [''data'', ''text''] = JStr t \<and>
       path r [''data'', ''id''] = JStr (''demo-post-'' @ show_int (Date_now rt)) \<and>
       show_int (Date_now rt) \<noteq> []"
proof -
  let ?r = "projr (createPost rt (JStr t) (JStr ''PUBLIC''))"
  have c: "callTool rt (JStr ''create_post'') (or_else (JObj [(''text'', JStr t)]) (JObj [])) = Inr ?r"
    by (simp add: callTool_def or_else_def bind_def createPost_def)
  have "path ?r [''data'', ''visibility''] = JStr ''PUBLIC''"
    and "path ?r [''data'', ''text''] = JStr t"
    and "path ?r [''data'', ''id''] = JStr (''demo-post-'' @ show_int (Date_now rt))"
    by (simp_all add: createPost_def bind_def)
  with MCPServer_call_ok [OF tools_truthy_registered(2) c] show_int_not_empty [of "Date_now rt"]
  show ?thesis by blast
qed

end
